theory Spec2Isabelle
  imports Complex_Main
begin

section \<open>Dice: d20 rolls and damage rolls\<close>

text \<open>
  The dice helpers (\<^verbatim>\<open>d20Roll\<close>, \<^verbatim>\<open>damageRoll\<close> and their private helpers
  \<^verbatim>\<open>_determineAdvantageMode\<close>, \<^verbatim>\<open>_determineCriticalMode\<close>, \<^verbatim>\<open>_areKeysPressed\<close>)
  talk to the host through \<^verbatim>\<open>game\<close> (settings, key bindings, keys that are down) and
  through the roll classes (\<^verbatim>\<open>configureDialog\<close>, \<^verbatim>\<open>evaluate\<close>, \<^verbatim>\<open>toMessage\<close>).
  The host is a parameter of the model: a record \<open>game\<close> for what is read, a record
  \<open>host\<close> for the dialogs and the dice, and a list of effects for what is done.
\<close>

subsection \<open>Small pieces of JavaScript\<close>

text \<open>\<^verbatim>\<open>a || b\<close> on optional strings: \<^verbatim>\<open>undefined\<close> and the empty string are falsy.\<close>

definition str_or :: "string option \<Rightarrow> string option \<Rightarrow> string option" where
  "str_or a b = (case a of None \<Rightarrow> b | Some s \<Rightarrow> (if s = [] then b else Some s))"

text \<open>\<^verbatim>\<open>Array.prototype.join\<close> on strings.\<close>

fun join :: "string \<Rightarrow> string list \<Rightarrow> string" where
  "join sep [] = []"
| "join sep [x] = x"
| "join sep (x # y # ys) = x @ sep @ join sep (y # ys)"

subsection \<open>Key bindings\<close>

record keyEvent =
  ctrlKey :: bool
  metaKey :: bool
  shiftKey :: bool
  altKey :: bool

record keybinding =
  key :: string
  modifiers :: "string list"

record game =
  keybindings :: "string \<Rightarrow> keybinding list"
  downKeys :: "string list"
  coreRollMode :: string
  criticalDamageModifiers :: bool
  criticalDamageMaxDice :: bool

text \<open>
  The object \<^verbatim>\<open>activeModifiers\<close> of \<^verbatim>\<open>_areKeysPressed\<close>, keyed by the host's
  \<^verbatim>\<open>KeyboardManager.MODIFIER_KEYS\<close> (\<^verbatim>\<open>"Control"\<close>, \<^verbatim>\<open>"Shift"\<close>, \<^verbatim>\<open>"Alt"\<close>); any other
  modifier name reads \<^verbatim>\<open>undefined\<close>, which is falsy.
\<close>

definition activeModifiers :: "keyEvent \<Rightarrow> string \<Rightarrow> bool" where
  "activeModifiers e m =
     (if m = ''Control'' then (ctrlKey e \<or> metaKey e)
      else if m = ''Shift'' then shiftKey e
      else if m = ''Alt'' then altKey e
      else False)"

definition areKeysPressed :: "game \<Rightarrow> keyEvent \<Rightarrow> string \<Rightarrow> bool" where
  "areKeysPressed g e action =
     list_ex (\<lambda>b. if key b \<in> set (downKeys g) then list_all (activeModifiers e) (modifiers b) else False)
       (keybindings g action)"

text \<open>\<^verbatim>\<open>event ? _areKeysPressed(event, action) : false\<close>\<close>

definition keyHeld :: "game \<Rightarrow> keyEvent option \<Rightarrow> string \<Rightarrow> bool" where
  "keyHeld g ev action = (case ev of None \<Rightarrow> False | Some e \<Rightarrow> areKeysPressed g e action)"

subsection \<open>Advantage mode\<close>

datatype adv_mode = NORMAL | ADVANTAGE | DISADVANTAGE

record adv_result =
  isFF :: bool
  advantageMode :: adv_mode

text \<open>
  \<^verbatim>\<open>_determineAdvantageMode({event, advantage=false, disadvantage=false, fastForward}={})\<close>.
  An argument left out is \<open>None\<close>; the defaults of the destructuring are written out.
\<close>

definition determineAdvantageMode ::
  "game \<Rightarrow> keyEvent option \<Rightarrow> bool option \<Rightarrow> bool option \<Rightarrow> bool option \<Rightarrow> adv_result" where
  "determineAdvantageMode g ev adv dis ff =
     (let k_normal = keyHeld g ev ''d20RollFastForwardNormal'';
          k_advantage = keyHeld g ev ''d20RollFastForwardAdvantage'';
          k_disadvantage = keyHeld g ev ''d20RollFastForwardDisadvantage'';
          is_ff = (case ff of Some f \<Rightarrow> f | None \<Rightarrow> list_ex (\<lambda>k. k) [k_normal, k_advantage, k_disadvantage]);
          a = (case adv of None \<Rightarrow> False | Some x \<Rightarrow> x);
          d = (case dis of None \<Rightarrow> False | Some x \<Rightarrow> x)
      in \<lparr>isFF = is_ff,
          advantageMode =
            (if a \<or> k_advantage then ADVANTAGE
             else if d \<or> k_disadvantage then DISADVANTAGE
             else NORMAL)\<rparr>)"

subsection \<open>d20Roll\<close>

text \<open>
  The configuration after the defaults of the parameter list (\<^verbatim>\<open>parts=[]\<close>, \<^verbatim>\<open>data={}\<close>,
  \<^verbatim>\<open>critical=20\<close>, \<^verbatim>\<open>fumble=1\<close>, \<^verbatim>\<open>chooseModifier=false\<close>, \<^verbatim>\<open>chatMessage=true\<close>,
  \<^verbatim>\<open>messageData={}\<close>); a property with no default is an option. Roll data is a flat map
  from paths to strings (\<^verbatim>\<open>data.item.ability\<close> is the key \<open>''item.ability''\<close>).
\<close>

record d20RollConfiguration =
  parts :: "string list"
  data :: "string \<rightharpoonup> string"
  event :: "keyEvent option"
  advantage :: "bool option"
  disadvantage :: "bool option"
  critical :: "int option"
  fumble :: "int option"
  targetValue :: "int option"
  elvenAccuracy :: "bool option"
  halflingLucky :: "bool option"
  reliableTalent :: "bool option"
  fastForward :: "bool option"
  chooseModifier :: bool
  template :: "string option"
  title :: "string option"
  dialogOptions :: "string \<rightharpoonup> string"
  chatMessage :: bool
  messageData :: "string \<rightharpoonup> string"
  rollMode :: "string option"
  flavor :: "string option"

record d20RollOptions =
  o_flavor :: "string option"
  o_advantageMode :: adv_mode
  o_defaultRollMode :: string
  o_rollMode :: "string option"
  o_critical :: "int option"
  o_fumble :: "int option"
  o_targetValue :: "int option"
  o_elvenAccuracy :: "bool option"
  o_halflingLucky :: "bool option"
  o_reliableTalent :: "bool option"

record D20Roll =
  r_formula :: string
  r_data :: "string \<rightharpoonup> string"
  r_options :: d20RollOptions
  r_total :: "int option"

record d20Dialog =
  d_title :: "string option"
  d_chooseModifier :: bool
  d_defaultRollMode :: string
  d_defaultAction :: adv_mode
  d_defaultAbility :: "string option"
  d_template :: "string option"

subsection \<open>damageRoll\<close>

record damageRollConfiguration =
  dmg_parts :: "string list"
  dmg_data :: "string \<rightharpoonup> string"
  dmg_event :: "keyEvent option"
  allowCritical :: bool
  dmg_critical :: "bool option"
  criticalBonusDice :: "int option"
  criticalMultiplier :: "int option"
  multiplyNumeric :: "bool option"
  powerfulCritical :: "bool option"
  criticalBonusDamage :: "string option"
  dmg_fastForward :: "bool option"
  dmg_template :: "string option"
  dmg_title :: "string option"
  dmg_dialogOptions :: "string \<rightharpoonup> string"
  dmg_chatMessage :: bool
  dmg_messageData :: "string \<rightharpoonup> string"
  dmg_rollMode :: "string option"
  dmg_flavor :: "string option"

record damageRollOptions =
  do_flavor :: "string option"
  do_rollMode :: "string option"
  do_critical :: bool
  do_criticalBonusDice :: "int option"
  do_criticalMultiplier :: "int option"
  do_criticalBonusDamage :: "string option"
  do_multiplyNumeric :: bool
  do_powerfulCritical :: bool

record DamageRoll =
  dr_formula :: string
  dr_data :: "string \<rightharpoonup> string"
  dr_options :: damageRollOptions
  dr_total :: "int option"

record damageDialog =
  dd_title :: "string option"
  dd_defaultRollMode :: string
  dd_defaultCritical :: bool
  dd_template :: "string option"
  dd_allowCritical :: bool

subsection \<open>The host's roll classes\<close>

text \<open>
  \<^verbatim>\<open>configureDialog\<close> changes the roll in place and resolves to it, or resolves to
  \<^verbatim>\<open>null\<close> when the dialog is dismissed: in the model it yields the roll as the dialog
  left it, or \<open>None\<close>. \<^verbatim>\<open>evaluate\<close> gives the roll its total; the dice are the host's, so
  the total is a function of the roll that the host supplies. What the dice helpers do
  to the host is recorded as a list of effects, oldest first.
\<close>

record host =
  d20ConfigureDialog :: "d20Dialog \<Rightarrow> (string \<rightharpoonup> string) \<Rightarrow> D20Roll \<Rightarrow> D20Roll option"
  d20Evaluate :: "D20Roll \<Rightarrow> int"
  damageConfigureDialog :: "damageDialog \<Rightarrow> (string \<rightharpoonup> string) \<Rightarrow> DamageRoll \<Rightarrow> DamageRoll option"
  damageEvaluate :: "DamageRoll \<Rightarrow> int"

datatype effect = DialogShown | RollEvaluated | ChatMessageCreated

text \<open>\<^verbatim>\<open>rollMode || game.settings.get("core", "rollMode")\<close>\<close>

definition defaultRollModeOf :: "game \<Rightarrow> string option \<Rightarrow> string" where
  "defaultRollModeOf g rm = (case str_or rm (Some (coreRollMode g)) of Some m \<Rightarrow> m | None \<Rightarrow> coreRollMode g)"

text \<open>The roll data after \<^verbatim>\<open>if ( chooseModifier && !isFF ) { ... }\<close>.\<close>

definition d20RollData :: "game \<Rightarrow> d20RollConfiguration \<Rightarrow> (string \<rightharpoonup> string)" where
  "d20RollData g c =
     (let am = determineAdvantageMode g (event c) (advantage c) (disadvantage c) (fastForward c) in
      if chooseModifier c \<and> \<not> isFF am then
        (let d1 = (data c)(''mod'' \<mapsto> ''@mod'') in
         if ''abilityCheckBonus'' \<in> dom (data c) then d1(''abilityCheckBonus'' \<mapsto> ''@abilityCheckBonus'') else d1)
      else data c)"

text \<open>\<^verbatim>\<open>new CONFIG.Dice.D20Roll(formula, data, {...})\<close>\<close>

definition d20RollInstance :: "game \<Rightarrow> d20RollConfiguration \<Rightarrow> D20Roll" where
  "d20RollInstance g c =
     (let am = determineAdvantageMode g (event c) (advantage c) (disadvantage c) (fastForward c) in
      \<lparr>r_formula = join '' + '' (''1d20'' # parts c),
       r_data = d20RollData g c,
       r_options = \<lparr>o_flavor = str_or (flavor c) (title c),
                    o_advantageMode = advantageMode am,
                    o_defaultRollMode = defaultRollModeOf g (rollMode c),
                    o_rollMode = rollMode c,
                    o_critical = critical c,
                    o_fumble = fumble c,
                    o_targetValue = targetValue c,
                    o_elvenAccuracy = elvenAccuracy c,
                    o_halflingLucky = halflingLucky c,
                    o_reliableTalent = reliableTalent c\<rparr>,
       r_total = None\<rparr>)"

text \<open>The first argument of \<^verbatim>\<open>roll.configureDialog\<close> in \<^verbatim>\<open>d20Roll\<close>.\<close>

definition d20RollDialog :: "game \<Rightarrow> d20RollConfiguration \<Rightarrow> d20Dialog" where
  "d20RollDialog g c =
     (let am = determineAdvantageMode g (event c) (advantage c) (disadvantage c) (fastForward c) in
      \<lparr>d_title = title c,
       d_chooseModifier = chooseModifier c,
       d_defaultRollMode = defaultRollModeOf g (rollMode c),
       d_defaultAction = advantageMode am,
       d_defaultAbility = str_or (d20RollData g c ''item.ability'') (d20RollData g c ''defaultAbility''),
       d_template = template c\<rparr>)"

text \<open>
  The tail of both helpers: \<^verbatim>\<open>await roll.evaluate({async: true})\<close>, then
  \<^verbatim>\<open>if ( roll && chatMessage ) await roll.toMessage(messageData)\<close>, then \<^verbatim>\<open>return roll\<close>.
\<close>

definition evaluateAndPost :: "bool \<Rightarrow> effect list" where
  "evaluateAndPost chat = (if chat then [RollEvaluated, ChatMessageCreated] else [RollEvaluated])"

definition d20Roll :: "host \<Rightarrow> game \<Rightarrow> d20RollConfiguration \<Rightarrow> D20Roll option \<times> effect list" where
  "d20Roll H g c =
     (let am = determineAdvantageMode g (event c) (advantage c) (disadvantage c) (fastForward c);
          roll = d20RollInstance g c
      in if \<not> isFF am then
           (case d20ConfigureDialog H (d20RollDialog g c) (dialogOptions c) roll of
              None \<Rightarrow> (None, [DialogShown])
            | Some configured \<Rightarrow>
                (Some (configured\<lparr>r_total := Some (d20Evaluate H configured)\<rparr>),
                 DialogShown # evaluateAndPost (chatMessage c)))
         else
           (let ffRoll = roll\<lparr>r_options := (r_options roll)\<lparr>o_rollMode :=
                           (case o_rollMode (r_options roll) of
                              None \<Rightarrow> Some (defaultRollModeOf g (rollMode c))
                            | Some m \<Rightarrow> Some m)\<rparr>\<rparr>
            in (Some (ffRoll\<lparr>r_total := Some (d20Evaluate H ffRoll)\<rparr>),
                evaluateAndPost (chatMessage c))))"

text \<open>\<^verbatim>\<open>_determineCriticalMode({event, critical=false, fastForward}={})\<close>\<close>

record crit_result =
  crit_isFF :: bool
  isCritical :: bool

definition determineCriticalMode ::
  "game \<Rightarrow> keyEvent option \<Rightarrow> bool option \<Rightarrow> bool option \<Rightarrow> crit_result" where
  "determineCriticalMode g ev crit ff =
     (let k_normal = keyHeld g ev ''damageRollFastForwardNormal'';
          k_critical = keyHeld g ev ''damageRollFastForwardCritical'';
          is_ff = (case ff of Some f \<Rightarrow> f | None \<Rightarrow> list_ex (\<lambda>k. k) [k_normal, k_critical]);
          c0 = (case crit of None \<Rightarrow> False | Some x \<Rightarrow> x)
      in \<lparr>crit_isFF = is_ff, isCritical = (if k_critical then True else c0)\<rparr>)"

text \<open>\<^verbatim>\<open>new CONFIG.Dice.DamageRoll(formula, data, {...})\<close>\<close>

definition damageRollInstance :: "game \<Rightarrow> damageRollConfiguration \<Rightarrow> DamageRoll" where
  "damageRollInstance g c =
     (let cm = determineCriticalMode g (dmg_event c) (dmg_critical c) (dmg_fastForward c) in
      \<lparr>dr_formula = join '' + '' (dmg_parts c),
       dr_data = dmg_data c,
       dr_options = \<lparr>do_flavor = str_or (dmg_flavor c) (dmg_title c),
                     do_rollMode = dmg_rollMode c,
                     do_critical = (if crit_isFF cm then isCritical cm else False),
                     do_criticalBonusDice = criticalBonusDice c,
                     do_criticalMultiplier = criticalMultiplier c,
                     do_criticalBonusDamage = criticalBonusDamage c,
                     do_multiplyNumeric =
                       (case multiplyNumeric c of Some b \<Rightarrow> b | None \<Rightarrow> criticalDamageModifiers g),
                     do_powerfulCritical =
                       (case powerfulCritical c of Some b \<Rightarrow> b | None \<Rightarrow> criticalDamageMaxDice g)\<rparr>,
       dr_total = None\<rparr>)"

definition damageRollDialog :: "game \<Rightarrow> damageRollConfiguration \<Rightarrow> damageDialog" where
  "damageRollDialog g c =
     (let cm = determineCriticalMode g (dmg_event c) (dmg_critical c) (dmg_fastForward c) in
      \<lparr>dd_title = dmg_title c,
       dd_defaultRollMode = defaultRollModeOf g (dmg_rollMode c),
       dd_defaultCritical = isCritical cm,
       dd_template = dmg_template c,
       dd_allowCritical = allowCritical c\<rparr>)"

definition damageRoll :: "host \<Rightarrow> game \<Rightarrow> damageRollConfiguration \<Rightarrow> DamageRoll option \<times> effect list" where
  "damageRoll H g c =
     (let cm = determineCriticalMode g (dmg_event c) (dmg_critical c) (dmg_fastForward c);
          roll = damageRollInstance g c
      in if \<not> crit_isFF cm then
           (case damageConfigureDialog H (damageRollDialog g c) (dmg_dialogOptions c) roll of
              None \<Rightarrow> (None, [DialogShown])
            | Some configured \<Rightarrow>
                (Some (configured\<lparr>dr_total := Some (damageEvaluate H configured)\<rparr>),
                 DialogShown # evaluateAndPost (dmg_chatMessage c)))
         else
           (Some (roll\<lparr>dr_total := Some (damageEvaluate H roll)\<rparr>),
            evaluateAndPost (dmg_chatMessage c)))"

section \<open>The proficiency cycle element\<close>

text \<open>
  \<^verbatim>\<open>ProficiencyCycleElement\<close>: the custom element that cycles a proficiency multiplier.
  The model keeps what \<^verbatim>\<open>step\<close> reads and writes: the \<^verbatim>\<open>type\<close> attribute (\<open>None\<close>
  when the attribute is absent), the private \<^verbatim>\<open>#value\<close> and the number of
  \<^verbatim>\<open>change\<close> events dispatched. The shadow DOM that \<^verbatim>\<open>#refreshValue\<close> writes to is
  display only and is left out: the element is taken to be connected to a document, as
  it is when a click or a change of its input calls \<^verbatim>\<open>step\<close>. Multipliers are
  rationals (\<open>1/2\<close> for \<^verbatim>\<open>.5\<close>).
\<close>

record ProficiencyCycleElement =
  typeAttribute :: "string option"
  currentValue :: rat
  changeEvents :: nat

datatype element_error = InvalidProficiencyMultiplier

text \<open>\<^verbatim>\<open>get type() { return this.getAttribute("type") ?? "ability"; }\<close>\<close>

definition elementType :: "ProficiencyCycleElement \<Rightarrow> string" where
  "elementType e = (case typeAttribute e of None \<Rightarrow> ''ability'' | Some t \<Rightarrow> t)"

text \<open>\<^verbatim>\<open>get validValues() { return this.type === "ability" ? [0, 1] : [0, 1, .5, 2]; }\<close>\<close>

definition validValues :: "ProficiencyCycleElement \<Rightarrow> rat list" where
  "validValues e = (if elementType e = ''ability'' then [0, 1] else [0, 1, 1 / 2, 2])"

text \<open>\<^verbatim>\<open>Array.prototype.indexOf\<close>: the first index of the element, or \<open>-1\<close>.\<close>

fun indexOf :: "rat list \<Rightarrow> rat \<Rightarrow> int" where
  "indexOf [] x = - 1"
| "indexOf (y # ys) x = (if y = x then 0 else (let i = indexOf ys x in if i < 0 then - 1 else i + 1))"

text \<open>The remainder operator \<^verbatim>\<open>%\<close> of JavaScript on integers: the sign of the dividend.\<close>

definition jsRem :: "int \<Rightarrow> int \<Rightarrow> int" where
  "jsRem a b = (if 0 \<le> a then a mod \<bar>b\<bar> else - ((- a) mod \<bar>b\<bar>))"

text \<open>
  The setter of \<^verbatim>\<open>value\<close>: it throws unless the value is one of \<^verbatim>\<open>validValues\<close>.
\<close>

definition setValue :: "ProficiencyCycleElement \<Rightarrow> rat \<Rightarrow> element_error + ProficiencyCycleElement" where
  "setValue e v = (if v \<in> set (validValues e) then Inr (e\<lparr>currentValue := v\<rparr>)
                   else Inl InvalidProficiencyMultiplier)"

text \<open>
  \<^verbatim>\<open>step(up=true)\<close>. An index outside the array reads \<^verbatim>\<open>undefined\<close>, which the setter
  turns into \<^verbatim>\<open>NaN\<close> and rejects.
\<close>

definition step :: "ProficiencyCycleElement \<Rightarrow> bool \<Rightarrow> element_error + ProficiencyCycleElement" where
  "step e up =
     (let levels = validValues e;
          idx = indexOf levels (currentValue e);
          n = int (length levels);
          k = jsRem (idx + (if up then 1 else n - 1)) n
      in if 0 \<le> k \<and> k < n then
           (case setValue e (levels ! nat k) of
              Inl err \<Rightarrow> Inl err
            | Inr e' \<Rightarrow> Inr (e'\<lparr>changeEvents := changeEvents e' + 1\<rparr>))
         else Inl InvalidProficiencyMultiplier)"

section \<open>Advancement\<close>

text \<open>
  Values of the dynamically typed objects of the system (configuration objects, update
  objects): booleans, numbers (as rationals) and strings. An object is a map from
  property names to values; a property that is absent reads \<^verbatim>\<open>undefined\<close>.
\<close>

datatype jsval = JBool bool | JNum rat | JStr string

type_synonym jsobject = "string \<rightharpoonup> jsval"

text \<open>
  The data of the abstract base class \<^verbatim>\<open>Advancement\<close> (\<^verbatim>\<open>defaultData\<close>): identifier,
  type name, configuration, value and, for an advancement of a single level, its level.
\<close>

record advancementData =
  adv_id :: "string option"
  adv_type :: string
  adv_configuration :: jsobject
  adv_value :: jsobject
  adv_level :: "nat option"

text \<open>\<^verbatim>\<open>get levels() { return this.data.level ? [this.data.level] : []; }\<close>\<close>

definition levels :: "advancementData \<Rightarrow> nat list" where
  "levels a = (case adv_level a of None \<Rightarrow> [] | Some l \<Rightarrow> (if l = 0 then [] else [l]))"







text \<open>
  \<^verbatim>\<open>Array.prototype.findIndex\<close>: the first index whose element satisfies the test;
  \<open>None\<close> stands for \<open>-1\<close>.
\<close>

fun findIndex :: "('a \<Rightarrow> bool) \<Rightarrow> 'a list \<Rightarrow> nat option" where
  "findIndex P [] = None"
| "findIndex P (x # xs) = (if P x then Some 0 else map_option Suc (findIndex P xs))"

text \<open>
  \<^verbatim>\<open>foundry.utils.mergeObject(data, {value: update})\<close> on the data of an advancement:
  a key of the update replaces the stored value under that key, every other key is
  kept. (The deletion keys of the host, \<^verbatim>\<open>-=key\<close>, are not modelled; an empty update
  has none.)
\<close>

definition mergeValue :: "advancementData \<Rightarrow> jsobject \<Rightarrow> advancementData" where
  "mergeValue d update = d\<lparr>adv_value := adv_value d ++ update\<rparr>"













section \<open>Text enrichers\<close>

text \<open>
  The enrichers turn a matched \<^verbatim>\<open>[[/check ...]]\<close>, \<^verbatim>\<open>[[/save ...]]\<close> or
  \<^verbatim>\<open>[[/damage ...]]\<close> into an element. \<^verbatim>\<open>enrichString\<close> hands them the configuration
  object that \<^verbatim>\<open>parseConfig\<close> built: the array \<^verbatim>\<open>values\<close> of the positional words and
  one property for each \<^verbatim>\<open>key=value\<close>, and, added last, the property \<^verbatim>\<open>input\<close> that
  holds the matched text. The model keeps the array apart (\<open>cfg_values\<close>) and every
  other property in one map (\<open>cfg_props\<close>), because the enrichers write properties
  whose names come from the text (\<^verbatim>\<open>config[value] = true\<close>). A write to the property
  \<^verbatim>\<open>values\<close> goes to the map: the loop already holds the array, and nothing reads the
  property afterwards.
\<close>

record config =
  cfg_values :: "string list"
  cfg_props :: jsobject

text \<open>Truthiness of a property: \<^verbatim>\<open>undefined\<close>, \<^verbatim>\<open>false\<close>, \<^verbatim>\<open>0\<close> and \<^verbatim>\<open>""\<close> are falsy.\<close>

fun truthy :: "jsval option \<Rightarrow> bool" where
  "truthy None = False"
| "truthy (Some (JBool b)) = b"
| "truthy (Some (JNum n)) = (n \<noteq> 0)"
| "truthy (Some (JStr s)) = (s \<noteq> [])"

definition truthyString :: "string option \<Rightarrow> bool" where
  "truthyString s = (case s of None \<Rightarrow> False | Some t \<Rightarrow> t \<noteq> [])"

text \<open>
  The rules tables \<^verbatim>\<open>CONFIG.DND5E.enrichmentLookup\<close> and \<^verbatim>\<open>CONFIG.DND5E.damageTypes\<close>
  are built elsewhere; they are parameters. An entry of the abilities and of the skills
  table has a label and, when it was registered under its full name, the canonical
  \<^verbatim>\<open>key\<close>; a skill names its default ability; the tools table maps a key to the UUID
  of the base item. A table is read as the map of its own entries (\<^verbatim>\<open>key in table\<close> and
  \<^verbatim>\<open>table[key]\<close> find what was registered and nothing else).
\<close>

record abilityConfig =
  ability_label :: string
  ability_key :: "string option"

record skillConfig =
  skill_label :: string
  skill_ability :: string
  skill_key :: "string option"

record toolIndex =
  tool_name :: string

record rules =
  lookupAbilities :: "string \<rightharpoonup> abilityConfig"
  lookupSkills :: "string \<rightharpoonup> skillConfig"
  lookupTools :: "string \<rightharpoonup> string"
  damageTypes :: "string \<rightharpoonup> string"

text \<open>
  What the enrichers call outside this file: \<^verbatim>\<open>Number.isNumeric\<close> and \<^verbatim>\<open>Number\<close> on a
  string, the conversion of a number to a string (for a property name or a join),
  \<^verbatim>\<open>Trait.getBaseItem(uuid, {indexOnly: true})\<close>, \<^verbatim>\<open>simplifyBonus\<close>,
  \<^verbatim>\<open>Roll.replaceFormulaData\<close>, the total of a roll evaluated with \<^verbatim>\<open>minimize\<close> or with
  \<^verbatim>\<open>maximize\<close>, \<^verbatim>\<open>game.i18n.localize\<close> and \<^verbatim>\<open>game.i18n.format\<close>, and
  \<^verbatim>\<open>String.prototype.toLowerCase\<close>.
\<close>

record enrichHost =
  isNumericString :: "string \<Rightarrow> bool"
  toNumber :: "string \<Rightarrow> rat"
  numberToString :: "rat \<Rightarrow> string"
  getBaseItem :: "string \<Rightarrow> toolIndex option"
  simplifyBonus :: "jsval \<Rightarrow> jsobject \<Rightarrow> rat"
  replaceFormulaData :: "string \<Rightarrow> jsobject \<Rightarrow> string"
  minimumTotal :: "string \<Rightarrow> rat"
  maximumTotal :: "string \<Rightarrow> rat"
  i18nLocalize :: "string \<Rightarrow> string"
  i18nFormat :: "string \<Rightarrow> (string \<times> jsval option) list \<Rightarrow> string"
  toLowerCase :: "string \<Rightarrow> string"

text \<open>A value used as a property name (\<^verbatim>\<open>table[config.skill]\<close>) is converted to a string.\<close>

fun propertyKey :: "enrichHost \<Rightarrow> jsval option \<Rightarrow> string" where
  "propertyKey H None = ''undefined''"
| "propertyKey H (Some (JBool b)) = (if b then ''true'' else ''false'')"
| "propertyKey H (Some (JNum n)) = numberToString H n"
| "propertyKey H (Some (JStr s)) = s"

text \<open>
  \<^verbatim>\<open>Number.isNumeric\<close> on a property that is set. The host defines it as
  \<^verbatim>\<open>+n === +n\<close> (with \<^verbatim>\<open>null\<close>, \<^verbatim>\<open>""\<close> and arrays excluded), which holds of a boolean
  and of a number that is not \<^verbatim>\<open>NaN\<close>; on a string it is the host's.
\<close>

fun isNumeric :: "enrichHost \<Rightarrow> jsval \<Rightarrow> bool" where
  "isNumeric H (JBool b) = True"
| "isNumeric H (JNum n) = True"
| "isNumeric H (JStr s) = isNumericString H s"

text \<open>
  \<^verbatim>\<open>_addDataset\<close>: every property but \<^verbatim>\<open>input\<close> and \<^verbatim>\<open>values\<close> whose value is truthy
  goes to the dataset of the element.
\<close>

definition addDataset :: "jsobject \<Rightarrow> jsobject" where
  "addDataset obj = (\<lambda>k. if k = ''input'' \<or> k = ''values'' then None
                           else if truthy (obj k) then obj k else None)"

text \<open>
  What an enricher returns: an element (\<^verbatim>\<open>createRollLink\<close>, \<^verbatim>\<open>createPassiveTag\<close>, or
  the span of a damage link with its localization data), the value of
  \<^verbatim>\<open>config.input\<close>, or \<^verbatim>\<open>null\<close>.
\<close>

record localizationData =
  loc_formula :: "string \<times> jsobject"
  loc_type :: string
  loc_average :: "jsval option"

datatype enriched =
    RollLink "string option" jsobject
  | PassiveTag "string option" jsobject
  | DamageSpan string localizationData
  | ConfigInput "jsval option"
  | NullResult

datatype warning =
    SkillNotFound "jsval option" "jsval option"
  | ToolNotFound "jsval option" "jsval option"
  | AbilityNotFound "jsval option" "jsval option"
  | NoAbilityProvided "jsval option"

subsection \<open>enrichCheck\<close>

text \<open>One turn of the loop over \<^verbatim>\<open>config.values\<close>, and the loop.\<close>

definition checkValue :: "enrichHost \<Rightarrow> rules \<Rightarrow> jsobject \<Rightarrow> string \<Rightarrow> jsobject" where
  "checkValue H R props v =
     (if lookupAbilities R v \<noteq> None then props(''ability'' \<mapsto> JStr v)
      else if lookupSkills R v \<noteq> None then props(''skill'' \<mapsto> JStr v)
      else if lookupTools R v \<noteq> None then props(''tool'' \<mapsto> JStr v)
      else if isNumericString H v then props(''dc'' \<mapsto> JNum (toNumber H v))
      else props(v \<mapsto> JBool True))"

definition checkValues :: "enrichHost \<Rightarrow> rules \<Rightarrow> config \<Rightarrow> jsobject" where
  "checkValues H R c = foldl (checkValue H R) (cfg_props c) (cfg_values c)"

text \<open>The state of the rest of \<^verbatim>\<open>enrichCheck\<close>: the configuration, \<^verbatim>\<open>invalid\<close>, the warnings.\<close>

record checkState =
  st_props :: jsobject
  st_invalid :: bool
  st_warnings :: "warning list"

definition warn :: "warning \<Rightarrow> checkState \<Rightarrow> checkState" where
  "warn w s = s\<lparr>st_invalid := True, st_warnings := st_warnings s @ [w]\<rparr>"

text \<open>
  \<^verbatim>\<open>const skillConfig = CONFIG.DND5E.enrichmentLookup.skills[config.skill]\<close> and the two
  statements after it.
\<close>

definition resolveSkill :: "enrichHost \<Rightarrow> rules \<Rightarrow> checkState \<Rightarrow> checkState" where
  "resolveSkill H R s =
     (let props = st_props s; skill = props ''skill'' in
      case lookupSkills R (propertyKey H skill) of
        None \<Rightarrow> (if truthy skill then warn (SkillNotFound skill (props ''input'')) s else s)
      | Some sc \<Rightarrow>
          (let s1 = (if truthy skill \<and> \<not> truthy (props ''ability'')
                     then s\<lparr>st_props := props(''ability'' \<mapsto> JStr (skill_ability sc))\<rparr> else s)
           in if truthyString (skill_key sc)
              then s1\<lparr>st_props := (st_props s1)(''skill'' := map_option JStr (skill_key sc))\<rparr> else s1))"

text \<open>\<^verbatim>\<open>toolUUID ? Trait.getBaseItem(toolUUID, { indexOnly: true }) : null\<close>\<close>

definition toolIndexOf :: "enrichHost \<Rightarrow> rules \<Rightarrow> jsobject \<Rightarrow> toolIndex option" where
  "toolIndexOf H R props =
     (case lookupTools R (propertyKey H (props ''tool'')) of
        None \<Rightarrow> None
      | Some uuid \<Rightarrow> (if uuid = [] then None else getBaseItem H uuid))"

definition resolveTool :: "enrichHost \<Rightarrow> rules \<Rightarrow> checkState \<Rightarrow> checkState" where
  "resolveTool H R s =
     (let props = st_props s; tool = props ''tool'' in
      if truthy tool \<and> toolIndexOf H R props = None
      then warn (ToolNotFound tool (props ''input'')) s else s)"

text \<open>
  \<^verbatim>\<open>let abilityConfig = CONFIG.DND5E.enrichmentLookup.abilities[config.ability]\<close> and the
  two statements after it.
\<close>

definition resolveAbility :: "enrichHost \<Rightarrow> rules \<Rightarrow> checkState \<Rightarrow> checkState" where
  "resolveAbility H R s =
     (let props = st_props s; ability = props ''ability'' in
      case lookupAbilities R (propertyKey H ability) of
        None \<Rightarrow> (if truthy ability then warn (AbilityNotFound ability (props ''input'')) s
                  else warn (NoAbilityProvided (props ''input'')) s)
      | Some ac \<Rightarrow>
          (if truthyString (ability_key ac)
           then s\<lparr>st_props := props(''ability'' := map_option JStr (ability_key ac))\<rparr> else s))"

text \<open>
  \<^verbatim>\<open>if ( config.dc && !Number.isNumeric(config.dc) ) config.dc = simplifyBonus(config.dc, options.rollData ?? {})\<close>
\<close>

definition resolveDC :: "enrichHost \<Rightarrow> jsobject \<Rightarrow> jsobject \<Rightarrow> jsobject" where
  "resolveDC H rollData props =
     (case props ''dc'' of
        None \<Rightarrow> props
      | Some dc \<Rightarrow> (if truthy (Some dc) \<and> \<not> isNumeric H dc
                    then props(''dc'' \<mapsto> JNum (simplifyBonus H dc rollData)) else props))"

text \<open>The default label of a check, built when no label was given.\<close>

definition checkLabel ::
  "enrichHost \<Rightarrow> skillConfig option \<Rightarrow> toolIndex option \<Rightarrow> abilityConfig option \<Rightarrow> jsobject
     \<Rightarrow> string option \<Rightarrow> string option" where
  "checkLabel H skillCfg toolIdx abilityCfg props label =
     (if truthyString label then label
      else
        (let ability = map_option ability_label abilityCfg;
             skill = map_option skill_label skillCfg;
             tool = map_option tool_name toolIdx;
             l1 = (if truthyString ability \<and> (truthyString skill \<or> truthyString tool)
                   then Some (i18nFormat H ''EDITOR.DND5E.Inline.SpecificCheck''
                          [(''ability'', map_option JStr ability),
                           (''type'', map_option JStr (case skill of Some x \<Rightarrow> Some x | None \<Rightarrow> tool))])
                   else ability);
             longSuffix = (if props ''format'' = Some (JStr ''long'') then ''Long'' else ''Short'')
         in if truthy (props ''passive'') then
              Some (i18nFormat H (''EDITOR.DND5E.Inline.DCPassive'' @ longSuffix)
                     [(''dc'', props ''dc''), (''check'', map_option JStr l1)])
            else
              (let l2 = (if truthy (props ''dc'')
                         then Some (i18nFormat H ''EDITOR.DND5E.Inline.DC''
                                [(''dc'', props ''dc''), (''check'', map_option JStr l1)])
                         else l1)
               in Some (i18nFormat H (''EDITOR.DND5E.Inline.Check'' @ longSuffix)
                          [(''check'', map_option JStr l2)]))))"

text \<open>The state when the loop is done: \<^verbatim>\<open>let invalid = false\<close>, nothing logged yet.\<close>

definition afterValues :: "enrichHost \<Rightarrow> rules \<Rightarrow> config \<Rightarrow> checkState" where
  "afterValues H R c = \<lparr>st_props = checkValues H R c, st_invalid = False, st_warnings = []\<rparr>"

record checkOutcome =
  warnings :: "warning list"
  finalConfig :: jsobject
  returned :: enriched

text \<open>
  \<^verbatim>\<open>enrichCheck(config, label, options)\<close>. The configuration is changed in place, so the
  caller sees it as it is at the end: it is part of the outcome, with the warnings
  logged and the value returned. \<open>rollData\<close> is \<^verbatim>\<open>options.rollData ?? {}\<close>.
\<close>

definition enrichCheck ::
  "enrichHost \<Rightarrow> rules \<Rightarrow> config \<Rightarrow> string option \<Rightarrow> jsobject \<Rightarrow> checkOutcome" where
  "enrichCheck H R c label rollData =
     (let s0 = afterValues H R c;
          skillCfg = lookupSkills R (propertyKey H (st_props s0 ''skill''));
          s1 = resolveSkill H R s0;
          toolIdx = toolIndexOf H R (st_props s1);
          s2 = resolveTool H R s1;
          abilityCfg = lookupAbilities R (propertyKey H (st_props s2 ''ability''));
          s3 = resolveAbility H R s2;
          props = resolveDC H rollData (st_props s3)
      in if st_invalid s3 then
           \<lparr>warnings = st_warnings s3, finalConfig = props, returned = ConfigInput (props ''input'')\<rparr>
         else
           (let lbl = checkLabel H skillCfg toolIdx abilityCfg props label in
            \<lparr>warnings = st_warnings s3, finalConfig = props,
             returned =
               (if truthy (props ''passive'') then PassiveTag lbl (addDataset props)
                else RollLink lbl (addDataset
                       ([''type'' \<mapsto> JStr (if truthy (props ''skill'') then ''skill''
                                              else if truthy (props ''tool'') then ''tool''
                                              else ''check'')] ++ props)))\<rparr>))"

subsection \<open>enrichSave\<close>

definition saveValue :: "enrichHost \<Rightarrow> rules \<Rightarrow> jsobject \<Rightarrow> string \<Rightarrow> jsobject" where
  "saveValue H R props v =
     (if lookupAbilities R v \<noteq> None then props(''ability'' \<mapsto> JStr v)
      else if isNumericString H v then props(''dc'' \<mapsto> JNum (toNumber H v))
      else props(v \<mapsto> JBool True))"

definition saveValues :: "enrichHost \<Rightarrow> rules \<Rightarrow> config \<Rightarrow> jsobject" where
  "saveValues H R c = foldl (saveValue H R) (cfg_props c) (cfg_values c)"

definition saveLabel :: "enrichHost \<Rightarrow> abilityConfig \<Rightarrow> jsobject \<Rightarrow> string option \<Rightarrow> string option" where
  "saveLabel H ac props label =
     (if truthyString label then label
      else
        (let l0 = ability_label ac;
             l1 = (if truthy (props ''dc'')
                   then i18nFormat H ''EDITOR.DND5E.Inline.DC'' [(''dc'', props ''dc''), (''check'', Some (JStr l0))]
                   else l0)
         in Some (i18nFormat H
                   (''EDITOR.DND5E.Inline.Save'' @ (if props ''format'' = Some (JStr ''long'') then ''Long'' else ''Short''))
                   [(''save'', Some (JStr l1))])))"

definition enrichSave ::
  "enrichHost \<Rightarrow> rules \<Rightarrow> config \<Rightarrow> string option \<Rightarrow> jsobject \<Rightarrow> checkOutcome" where
  "enrichSave H R c label rollData =
     (let props0 = saveValues H R c in
      case lookupAbilities R (propertyKey H (props0 ''ability'')) of
        None \<Rightarrow>
          \<lparr>warnings = [AbilityNotFound (props0 ''ability'') (props0 ''input'')], finalConfig = props0,
           returned = ConfigInput (props0 ''input'')\<rparr>
      | Some ac \<Rightarrow>
          (let props1 = (if truthyString (ability_key ac)
                         then props0(''ability'' := map_option JStr (ability_key ac)) else props0);
               props = resolveDC H rollData props1
           in \<lparr>warnings = [], finalConfig = props,
               returned = RollLink (saveLabel H ac props label)
                            (addDataset ([''type'' \<mapsto> JStr ''save''] ++ props))\<rparr>))"

subsection \<open>enrichDamage\<close>

text \<open>A value joined into a string (\<^verbatim>\<open>formulaParts.join(" ")\<close>).\<close>

fun toStringJs :: "enrichHost \<Rightarrow> jsval \<Rightarrow> string" where
  "toStringJs H (JBool b) = (if b then ''true'' else ''false'')"
| "toStringJs H (JNum n) = numberToString H n"
| "toStringJs H (JStr s) = s"

text \<open>
  One turn of the loop over \<^verbatim>\<open>config.values\<close> of \<^verbatim>\<open>enrichDamage\<close>, on the configuration
  and the formula parts, and the loop.
\<close>

definition damageValue :: "rules \<Rightarrow> jsobject \<times> string list \<Rightarrow> string \<Rightarrow> jsobject \<times> string list" where
  "damageValue R st v =
     (if damageTypes R v \<noteq> None then ((fst st)(''type'' \<mapsto> JStr v), snd st)
      else if v = ''average'' then ((fst st)(''average'' \<mapsto> JBool True), snd st)
      else (fst st, snd st @ [v]))"

definition damageValues :: "enrichHost \<Rightarrow> rules \<Rightarrow> config \<Rightarrow> jsobject \<times> string list" where
  "damageValues H R c =
     foldl (damageValue R)
       (cfg_props c,
        (if truthy (cfg_props c ''formula'')
         then (case cfg_props c ''formula'' of Some f \<Rightarrow> [toStringJs H f] | None \<Rightarrow> [])
         else []))
       (cfg_values c)"

text \<open>
  The configuration when the formula is known: \<^verbatim>\<open>config.formula\<close>, then
  \<^verbatim>\<open>config.damageType = config.type; config.type = "damage"\<close>.
\<close>

definition damageFormula :: "enrichHost \<Rightarrow> rules \<Rightarrow> config \<Rightarrow> jsobject \<Rightarrow> string" where
  "damageFormula H R c rollData = replaceFormulaData H (join '' '' (snd (damageValues H R c))) rollData"

definition damageConfig :: "enrichHost \<Rightarrow> rules \<Rightarrow> config \<Rightarrow> jsobject \<Rightarrow> jsobject" where
  "damageConfig H R c rollData =
     (let p0 = fst (damageValues H R c);
          p1 = p0(''formula'' \<mapsto> JStr (damageFormula H R c rollData));
          p2 = p1(''damageType'' := p1 ''type'')
      in p2(''type'' \<mapsto> JStr ''damage''))"

datatype evaluation = Minimize string | Maximize string

record damageOutcome =
  evaluations :: "evaluation list"
  damageFinalConfig :: jsobject
  damageReturned :: enriched

definition enrichDamage ::
  "enrichHost \<Rightarrow> rules \<Rightarrow> config \<Rightarrow> string option \<Rightarrow> jsobject \<Rightarrow> damageOutcome" where
  "enrichDamage H R c label rollData =
     (let formula = damageFormula H R c rollData in
      if formula = [] then
        \<lparr>evaluations = [],
         damageFinalConfig = (fst (damageValues H R c))(''formula'' \<mapsto> JStr formula),
         damageReturned = NullResult\<rparr>
      else
        (let props = damageConfig H R c rollData in
         if truthyString label then
           \<lparr>evaluations = [], damageFinalConfig = props,
            damageReturned = RollLink label (addDataset props)\<rparr>
         else
           (let link = (formula, addDataset props);
                typeLabel = toLowerCase H (i18nLocalize H
                              (case damageTypes R (propertyKey H (props ''damageType'')) of
                                 Some t \<Rightarrow> t | None \<Rightarrow> ''''))
            in if truthy (props ''average'') then
                 (if props ''average'' = Some (JBool True) then
                    \<lparr>evaluations = [Minimize formula, Maximize formula], damageFinalConfig = props,
                     damageReturned = DamageSpan ''Long''
                       \<lparr>loc_formula = link, loc_type = typeLabel,
                        loc_average = Some (JNum (of_int \<lfloor>(minimumTotal H formula + maximumTotal H formula) / 2\<rfloor>))\<rparr>\<rparr>
                  else
                    \<lparr>evaluations = [], damageFinalConfig = props,
                     damageReturned = DamageSpan ''Long''
                       \<lparr>loc_formula = link, loc_type = typeLabel,
                        loc_average = (case props ''average'' of
                                         Some a \<Rightarrow> (if isNumeric H a then Some a else None)
                                       | None \<Rightarrow> None)\<rparr>\<rparr>)
               else
                 \<lparr>evaluations = [], damageFinalConfig = props,
                  damageReturned = DamageSpan ''Short''
                    \<lparr>loc_formula = link, loc_type = typeLabel, loc_average = None\<rparr>\<rparr>)))"


subsection \<open>Reading the final configuration\<close>

text \<open>
  The ability that \<^verbatim>\<open>enrichCheck\<close> and \<^verbatim>\<open>enrichSave\<close> leave in \<^verbatim>\<open>config.ability\<close> for
  an ability \<open>a\<close> that they look up: the canonical \<^verbatim>\<open>key\<close> of its entry when the entry
  has one, and \<open>a\<close> itself otherwise.
\<close>

definition canonicalAbility :: "enrichHost \<Rightarrow> rules \<Rightarrow> jsval option \<Rightarrow> jsval option" where
  "canonicalAbility H R a =
     (case lookupAbilities R (propertyKey H a) of
        None \<Rightarrow> a
      | Some ac \<Rightarrow> (if truthyString (ability_key ac) then map_option JStr (ability_key ac) else a))"

text \<open>The average that a damage span displays, if it displays one.\<close>

fun displayedAverage :: "enriched \<Rightarrow> jsval option" where
  "displayedAverage (DamageSpan kind d) = loc_average d"
| "displayedAverage (RollLink l d) = None"
| "displayedAverage (PassiveTag l d) = None"
| "displayedAverage (ConfigInput v) = None"
| "displayedAverage NullResult = None"

fun spanKind :: "enriched \<Rightarrow> string option" where
  "spanKind (DamageSpan kind d) = Some kind"
| "spanKind (RollLink l d) = None"
| "spanKind (PassiveTag l d) = None"
| "spanKind (ConfigInput v) = None"
| "spanKind NullResult = None"

fun isRollLink :: "enriched \<Rightarrow> bool" where
  "isRollLink (RollLink l d) = True"
| "isRollLink (DamageSpan kind d) = False"
| "isRollLink (PassiveTag l d) = False"
| "isRollLink (ConfigInput v) = False"
| "isRollLink NullResult = False"

fun linkDataset :: "enriched \<Rightarrow> jsobject" where
  "linkDataset (RollLink l d) = d"
| "linkDataset (PassiveTag l d) = d"
| "linkDataset (DamageSpan kind d) = snd (loc_formula d)"
| "linkDataset (ConfigInput v) = Map.empty"
| "linkDataset NullResult = Map.empty"

text \<open>The flag \<^verbatim>\<open>invalid\<close> is set exactly when a warning was logged.\<close>

definition logged :: "checkState \<Rightarrow> bool" where
  "logged s = (st_invalid s = (st_warnings s \<noteq> []))"

section \<open>Example rules and an example host for the enrichers\<close>

text \<open>
  The dice of the example host. The enrichers take the dice from the host (a formula
  string in, a total out); the example host evaluates one dice term \<^verbatim>\<open>NdM\<close>:
  minimized, each of the \<open>N\<close> dice shows 1; maximized, each shows \<open>M\<close>. A plain number
  evaluates to itself, anything else to 0.
\<close>

definition digitValue :: "char \<Rightarrow> nat option" where
  "digitValue ch = (if ch = CHR ''0'' then Some 0 else if ch = CHR ''1'' then Some 1
     else if ch = CHR ''2'' then Some 2 else if ch = CHR ''3'' then Some 3
     else if ch = CHR ''4'' then Some 4 else if ch = CHR ''5'' then Some 5
     else if ch = CHR ''6'' then Some 6 else if ch = CHR ''7'' then Some 7
     else if ch = CHR ''8'' then Some 8 else if ch = CHR ''9'' then Some 9 else None)"

fun parseDigits :: "nat \<Rightarrow> string \<Rightarrow> nat option" where
  "parseDigits acc [] = Some acc"
| "parseDigits acc (ch # cs) =
     (case digitValue ch of None \<Rightarrow> None | Some d \<Rightarrow> parseDigits (10 * acc + d) cs)"

definition parseNat :: "string \<Rightarrow> nat option" where
  "parseNat s = (if s = [] then None else parseDigits 0 s)"

definition diceTerm :: "string \<Rightarrow> (nat \<times> nat) option" where
  "diceTerm f =
     (case parseNat (takeWhile (\<lambda>ch. ch \<noteq> CHR ''d'') f) of
        None \<Rightarrow> None
      | Some n \<Rightarrow>
          (case dropWhile (\<lambda>ch. ch \<noteq> CHR ''d'') f of
             [] \<Rightarrow> None
           | d # faces \<Rightarrow> (case parseNat faces of None \<Rightarrow> None | Some m \<Rightarrow> Some (n, m))))"

definition diceTotal :: "bool \<Rightarrow> string \<Rightarrow> rat" where
  "diceTotal maximize f =
     (case diceTerm f of
        Some (n, m) \<Rightarrow> (if maximize then of_nat (n * m) else of_nat n)
      | None \<Rightarrow> (case parseNat f of Some k \<Rightarrow> of_nat k | None \<Rightarrow> 0))"

text \<open>
  The example host reads unsigned decimal numbers, does not translate (\<^verbatim>\<open>localize\<close>
  and \<^verbatim>\<open>format\<close> give back the key), substitutes nothing in a formula and knows one
  base item. The example rules hold two abilities and a skill under their short and
  their full keys, a tool and two damage types.
\<close>

definition exampleHost :: enrichHost where
  "exampleHost =
     \<lparr>isNumericString = (\<lambda>s. parseNat s \<noteq> None),
      toNumber = (\<lambda>s. case parseNat s of Some n \<Rightarrow> of_nat n | None \<Rightarrow> 0),
      numberToString = (\<lambda>n. ''''),
      getBaseItem = (\<lambda>uuid. if uuid = ''Compendium.dnd5e.items.woWZ1sO5IUVGzo58''
                             then Some \<lparr>tool_name = ''Thieves Tools''\<rparr> else None),
      simplifyBonus = (\<lambda>v rollData. 0),
      replaceFormulaData = (\<lambda>f rollData. f),
      minimumTotal = diceTotal False,
      maximumTotal = diceTotal True,
      i18nLocalize = (\<lambda>k. k),
      i18nFormat = (\<lambda>k args. k),
      toLowerCase = (\<lambda>s. s)\<rparr>"

definition exampleRules :: rules where
  "exampleRules =
     \<lparr>lookupAbilities = map_of
        [(''dex'', \<lparr>ability_label = ''Dexterity'', ability_key = None\<rparr>),
         (''dexterity'', \<lparr>ability_label = ''Dexterity'', ability_key = Some ''dex''\<rparr>),
         (''str'', \<lparr>ability_label = ''Strength'', ability_key = None\<rparr>),
         (''strength'', \<lparr>ability_label = ''Strength'', ability_key = Some ''str''\<rparr>)],
      lookupSkills = map_of
        [(''acr'', \<lparr>skill_label = ''Acrobatics'', skill_ability = ''dex'', skill_key = None\<rparr>),
         (''acrobatics'', \<lparr>skill_label = ''Acrobatics'', skill_ability = ''dex'', skill_key = Some ''acr''\<rparr>)],
      lookupTools = map_of [(''thief'', ''Compendium.dnd5e.items.woWZ1sO5IUVGzo58'')],
      damageTypes = map_of
        [(''bludgeoning'', ''DND5E.DamageBludgeoning''), (''force'', ''DND5E.DamageForce'')]\<rparr>"

text \<open>
  Configurations as \<^verbatim>\<open>enrichString\<close> hands them over, for
  \<^verbatim>\<open>[[/check skill=acr dc=20]]\<close>, \<^verbatim>\<open>[[/check ability=str skill=acr]]\<close>,
  \<^verbatim>\<open>[[/check skill=xyz input]]\<close>, \<^verbatim>\<open>[[/save xyz input]]\<close>,
  \<^verbatim>\<open>[[/damage 2d6 average=true]]\<close>, \<^verbatim>\<open>[[/damage 8d4dl force average=666]]\<close> and
  \<^verbatim>\<open>[[/damage 2d6 average=0]]\<close>.
\<close>

definition checkAcrobatics :: config where
  "checkAcrobatics = \<lparr>cfg_values = [],
     cfg_props = [''skill'' \<mapsto> JStr ''acr'', ''dc'' \<mapsto> JNum 20,
                  ''input'' \<mapsto> JStr ''[[/check skill=acr dc=20]]'']\<rparr>"

definition checkStrengthAcrobatics :: config where
  "checkStrengthAcrobatics = \<lparr>cfg_values = [],
     cfg_props = [''ability'' \<mapsto> JStr ''str'', ''skill'' \<mapsto> JStr ''acr'',
                  ''input'' \<mapsto> JStr ''[[/check ability=str skill=acr]]'']\<rparr>"

definition checkUnknownSkillInput :: config where
  "checkUnknownSkillInput = \<lparr>cfg_values = [''input''],
     cfg_props = [''skill'' \<mapsto> JStr ''xyz'', ''input'' \<mapsto> JStr ''[[/check skill=xyz input]]'']\<rparr>"

definition saveUnknownAbilityInput :: config where
  "saveUnknownAbilityInput = \<lparr>cfg_values = [''input''],
     cfg_props = [''ability'' \<mapsto> JStr ''xyz'', ''input'' \<mapsto> JStr ''[[/save ability=xyz input]]'']\<rparr>"

definition damageAverageTrue :: config where
  "damageAverageTrue = \<lparr>cfg_values = [''2d6''],
     cfg_props = [''average'' \<mapsto> JBool True, ''input'' \<mapsto> JStr ''[[/damage 2d6 average=true]]'']\<rparr>"

definition damageAverage666 :: config where
  "damageAverage666 = \<lparr>cfg_values = [''8d4dl'', ''force''],
     cfg_props = [''average'' \<mapsto> JNum 666, ''input'' \<mapsto> JStr ''[[/damage 8d4dl force average=666]]'']\<rparr>"

definition damageAverageZero :: config where
  "damageAverageZero = \<lparr>cfg_values = [''2d6''],
     cfg_props = [''average'' \<mapsto> JNum 0, ''input'' \<mapsto> JStr ''[[/damage 2d6 average=0]]'']\<rparr>"


section \<open>Example host states\<close>

text \<open>
  Concrete inputs on which the model is run: a table of key bindings (Shift for a
  normal roll, Alt for advantage or a critical hit, Control for disadvantage, none with
  a modifier), a game in which no key is down, one in which the left Alt key is down,
  a host whose dialogs are always dismissed and a host whose dialogs are accepted as
  they are and whose dice total zero.
\<close>

definition standardBindings :: "string \<Rightarrow> keybinding list" where
  "standardBindings action =
     (if action = ''d20RollFastForwardNormal'' \<or> action = ''damageRollFastForwardNormal'' then
        [\<lparr>key = ''ShiftLeft'', modifiers = []\<rparr>, \<lparr>key = ''ShiftRight'', modifiers = []\<rparr>]
      else if action = ''d20RollFastForwardAdvantage'' \<or> action = ''damageRollFastForwardCritical'' then
        [\<lparr>key = ''AltLeft'', modifiers = []\<rparr>, \<lparr>key = ''AltRight'', modifiers = []\<rparr>]
      else if action = ''d20RollFastForwardDisadvantage'' then
        [\<lparr>key = ''ControlLeft'', modifiers = []\<rparr>, \<lparr>key = ''ControlRight'', modifiers = []\<rparr>]
      else [])"

definition plainGame :: game where
  "plainGame = \<lparr>keybindings = standardBindings, downKeys = [], coreRollMode = ''publicroll'',
                 criticalDamageModifiers = False, criticalDamageMaxDice = False\<rparr>"

definition altGame :: game where
  "altGame = plainGame\<lparr>downKeys := [''AltLeft'']\<rparr>"

definition altClick :: keyEvent where
  "altClick = \<lparr>ctrlKey = False, metaKey = False, shiftKey = False, altKey = True\<rparr>"

definition dismissingHost :: host where
  "dismissingHost = \<lparr>d20ConfigureDialog = (\<lambda>d opts r. None), d20Evaluate = (\<lambda>r. 0),
                      damageConfigureDialog = (\<lambda>d opts r. None), damageEvaluate = (\<lambda>r. 0)\<rparr>"

definition zeroHost :: host where
  "zeroHost = \<lparr>d20ConfigureDialog = (\<lambda>d opts r. Some r), d20Evaluate = (\<lambda>r. 0),
                damageConfigureDialog = (\<lambda>d opts r. Some r), damageEvaluate = (\<lambda>r. 0)\<rparr>"

text \<open>\<^verbatim>\<open>d20Roll({})\<close> and \<^verbatim>\<open>damageRoll({parts: ["1d6"]})\<close>: every default of the parameter lists.\<close>

definition d20Defaults :: d20RollConfiguration where
  "d20Defaults = \<lparr>parts = [], data = Map.empty, event = None, advantage = None, disadvantage = None,
     critical = Some 20, fumble = Some 1, targetValue = None, elvenAccuracy = None,
     halflingLucky = None, reliableTalent = None, fastForward = None, chooseModifier = False,
     template = None, title = None, dialogOptions = Map.empty, chatMessage = True,
     messageData = Map.empty, rollMode = None, flavor = None\<rparr>"

definition damageDefaults :: damageRollConfiguration where
  "damageDefaults = \<lparr>dmg_parts = [''1d6''], dmg_data = Map.empty, dmg_event = None, allowCritical = True,
     dmg_critical = None, criticalBonusDice = None, criticalMultiplier = None, multiplyNumeric = None,
     powerfulCritical = None, criticalBonusDamage = None, dmg_fastForward = None, dmg_template = None,
     dmg_title = None, dmg_dialogOptions = Map.empty, dmg_chatMessage = True,
     dmg_messageData = Map.empty, dmg_rollMode = None, dmg_flavor = None\<rparr>"

section \<open>Properties of the dice helpers\<close>

lemma keyHeld_altGame_advantage: "keyHeld altGame (Some altClick) ''d20RollFastForwardAdvantage''"
  by (simp add: keyHeld_def areKeysPressed_def altGame_def plainGame_def standardBindings_def)

text \<open>
  Claim C2. With \<^verbatim>\<open>advantage: true\<close> and \<^verbatim>\<open>disadvantage: false\<close> given explicitly,
  \<^verbatim>\<open>_determineAdvantageMode\<close> returns the mode ADVANTAGE, and \<^verbatim>\<open>d20Roll\<close> builds its
  roll with that mode, whatever the event, the keys that are down, the key bindings
  and the \<^verbatim>\<open>fastForward\<close> argument are.
\<close>

theorem explicit_advantage_is_ADVANTAGE:
  "advantageMode (determineAdvantageMode g ev (Some True) (Some False) ff) = ADVANTAGE \<and>
   o_advantageMode (r_options (d20RollInstance g (c\<lparr>advantage := Some True, disadvantage := Some False\<rparr>)))
     = ADVANTAGE"
  by (simp add: determineAdvantageMode_def d20RollInstance_def Let_def)

text \<open>
  Claim C3, as stated, fails: with \<^verbatim>\<open>disadvantage: true\<close>, \<^verbatim>\<open>advantage: false\<close> and
  the advantage key (Alt) held, the mode returned is ADVANTAGE.
\<close>

theorem explicit_disadvantage_loses_to_advantage_key:
  "advantageMode (determineAdvantageMode altGame (Some altClick) (Some False) (Some True) None) = ADVANTAGE"
  using keyHeld_altGame_advantage by (simp add: determineAdvantageMode_def Let_def)

text \<open>
  Claim C3, amended. With \<^verbatim>\<open>disadvantage: true\<close> and \<^verbatim>\<open>advantage: false\<close> given
  explicitly, the mode is DISADVANTAGE exactly when the advantage fast-forward binding
  is not held (so always when the call carries no event), and ADVANTAGE when it is
  held: the advantage binding overrides the explicit disadvantage argument.
\<close>

theorem explicit_disadvantage_unless_advantage_key:
  "advantageMode (determineAdvantageMode g ev (Some False) (Some True) ff) =
     (if keyHeld g ev ''d20RollFastForwardAdvantage'' then ADVANTAGE else DISADVANTAGE)"
  by (simp add: determineAdvantageMode_def Let_def)

text \<open>
  Claim C4, as stated, fails: \<^verbatim>\<open>_determineAdvantageMode\<close> has no failing path. Called
  with \<^verbatim>\<open>advantage: true\<close> and \<^verbatim>\<open>disadvantage: true\<close> it returns a resolved mode.
\<close>

theorem both_flags_return_a_mode:
  "determineAdvantageMode plainGame None (Some True) (Some True) None
     = \<lparr>isFF = False, advantageMode = ADVANTAGE\<rparr>"
  by (simp add: determineAdvantageMode_def keyHeld_def Let_def)

text \<open>
  Claim C4, amended. When advantage and disadvantage are both requested explicitly the
  configuration step does not fail: \<^verbatim>\<open>_determineAdvantageMode\<close> returns the resolved
  mode ADVANTAGE (the advantage test comes first), and \<^verbatim>\<open>d20Roll\<close> builds its roll
  with that mode.
\<close>

theorem both_flags_resolve_to_ADVANTAGE:
  "advantageMode (determineAdvantageMode g ev (Some True) (Some True) ff) = ADVANTAGE \<and>
   o_advantageMode (r_options (d20RollInstance g (c\<lparr>advantage := Some True, disadvantage := Some True\<rparr>)))
     = ADVANTAGE"
  by (simp add: determineAdvantageMode_def d20RollInstance_def Let_def)

text \<open>
  Claim C5 fails on the code: \<^verbatim>\<open>damageRoll\<close> never reads \<^verbatim>\<open>allowCritical\<close> when it
  builds the roll. With \<^verbatim>\<open>allowCritical: false\<close>, \<^verbatim>\<open>critical: true\<close> and
  \<^verbatim>\<open>fastForward: true\<close> the roll that is evaluated and returned is marked critical,
  for every host, game and remaining configuration. In general the roll is built
  critical exactly when it is fast-forwarded and \<^verbatim>\<open>_determineCriticalMode\<close> says
  critical (by the explicit flag or by the held key), whatever \<^verbatim>\<open>allowCritical\<close> is.
\<close>

theorem allowCritical_false_still_critical:
  "map_option (\<lambda>r. do_critical (dr_options r))
     (fst (damageRoll H g (c\<lparr>allowCritical := False, dmg_critical := Some True, dmg_fastForward := Some True\<rparr>)))
   = Some True \<and>
   do_critical (dr_options (damageRollInstance g (c\<lparr>allowCritical := False\<rparr>)))
   = (crit_isFF (determineCriticalMode g (dmg_event c) (dmg_critical c) (dmg_fastForward c)) \<and>
      isCritical (determineCriticalMode g (dmg_event c) (dmg_critical c) (dmg_fastForward c)))"
  by (simp add: damageRoll_def damageRollInstance_def determineCriticalMode_def Let_def)

text \<open>
  Claim C6. When the roll is not fast-forwarded and the configuration dialog resolves
  to \<^verbatim>\<open>null\<close>, \<^verbatim>\<open>d20Roll\<close> and \<^verbatim>\<open>damageRoll\<close> return \<^verbatim>\<open>null\<close> and the only thing
  they did to the host is to show the dialog: no evaluation, no chat message. And in
  every run the result is \<^verbatim>\<open>null\<close> exactly when no roll was evaluated, so a cancelled
  roll cannot be taken for an evaluated one, whatever its total.
\<close>

theorem dismissed_dialog_returns_null:
  "(\<not> isFF (determineAdvantageMode g (event c) (advantage c) (disadvantage c) (fastForward c)) \<and>
    d20ConfigureDialog H (d20RollDialog g c) (dialogOptions c) (d20RollInstance g c) = None
      \<longrightarrow> d20Roll H g c = (None, [DialogShown])) \<and>
   (\<not> crit_isFF (determineCriticalMode g (dmg_event dc) (dmg_critical dc) (dmg_fastForward dc)) \<and>
    damageConfigureDialog H (damageRollDialog g dc) (dmg_dialogOptions dc) (damageRollInstance g dc) = None
      \<longrightarrow> damageRoll H g dc = (None, [DialogShown])) \<and>
   (fst (d20Roll H g c) = None) = (RollEvaluated \<notin> set (snd (d20Roll H g c))) \<and>
   (fst (damageRoll H g dc) = None) = (RollEvaluated \<notin> set (snd (damageRoll H g dc)))"
proof (intro conjI impI)
  assume "\<not> isFF (determineAdvantageMode g (event c) (advantage c) (disadvantage c) (fastForward c)) \<and>
    d20ConfigureDialog H (d20RollDialog g c) (dialogOptions c) (d20RollInstance g c) = None"
  then show "d20Roll H g c = (None, [DialogShown])"
    by (simp add: d20Roll_def Let_def)
next
  assume "\<not> crit_isFF (determineCriticalMode g (dmg_event dc) (dmg_critical dc) (dmg_fastForward dc)) \<and>
    damageConfigureDialog H (damageRollDialog g dc) (dmg_dialogOptions dc) (damageRollInstance g dc) = None"
  then show "damageRoll H g dc = (None, [DialogShown])"
    by (simp add: damageRoll_def Let_def)
next
  show "(fst (d20Roll H g c) = None) = (RollEvaluated \<notin> set (snd (d20Roll H g c)))"
    by (simp add: d20Roll_def evaluateAndPost_def Let_def split: option.splits)
next
  show "(fst (damageRoll H g dc) = None) = (RollEvaluated \<notin> set (snd (damageRoll H g dc)))"
    by (simp add: damageRoll_def evaluateAndPost_def Let_def split: option.splits)
qed

theorem dismissed_dialog_returns_null_witness:
  "d20Roll dismissingHost plainGame d20Defaults = (None, [DialogShown]) \<and>
   damageRoll dismissingHost plainGame damageDefaults = (None, [DialogShown]) \<and>
   map_option r_total (fst (d20Roll zeroHost plainGame d20Defaults)) = Some (Some 0)"
proof -
  have ff: "\<not> isFF (determineAdvantageMode plainGame (event d20Defaults) (advantage d20Defaults)
              (disadvantage d20Defaults) (fastForward d20Defaults))"
    by (simp add: determineAdvantageMode_def keyHeld_def d20Defaults_def Let_def)
  have cf: "\<not> crit_isFF (determineCriticalMode plainGame (dmg_event damageDefaults)
              (dmg_critical damageDefaults) (dmg_fastForward damageDefaults))"
    by (simp add: determineCriticalMode_def keyHeld_def damageDefaults_def Let_def)
  have d1: "d20ConfigureDialog dismissingHost (d20RollDialog plainGame d20Defaults)
              (dialogOptions d20Defaults) (d20RollInstance plainGame d20Defaults) = None"
    by (simp add: dismissingHost_def)
  have d2: "damageConfigureDialog dismissingHost (damageRollDialog plainGame damageDefaults)
              (dmg_dialogOptions damageDefaults) (damageRollInstance plainGame damageDefaults) = None"
    by (simp add: dismissingHost_def)
  have z: "map_option r_total (fst (d20Roll zeroHost plainGame d20Defaults)) = Some (Some 0)"
    using ff by (simp add: d20Roll_def zeroHost_def evaluateAndPost_def Let_def)
  from dismissed_dialog_returns_null [of plainGame d20Defaults dismissingHost damageDefaults] ff cf d1 d2 z
  show ?thesis by blast
qed

section \<open>Properties of the proficiency cycle element\<close>

lemma elementType_update [simp]:
  "elementType (e\<lparr>currentValue := v\<rparr>) = elementType e"
  "elementType (e\<lparr>changeEvents := n\<rparr>) = elementType e"
  by (simp_all add: elementType_def)

lemma validValues_update [simp]:
  "validValues (e\<lparr>currentValue := v\<rparr>) = validValues e"
  "validValues (e\<lparr>changeEvents := n\<rparr>) = validValues e"
  by (simp_all add: validValues_def)

lemma step_at:
  assumes "validValues e = vs" and "indexOf vs (currentValue e) = i"
    and "jsRem (i + (if up then 1 else int (length vs) - 1)) (int (length vs)) = int k"
    and "k < length vs"
  shows "step e up = Inr (e\<lparr>currentValue := vs ! k, changeEvents := changeEvents e + 1\<rparr>)"
  using assms by (simp add: step_def setValue_def Let_def)

lemma step_ability:
  assumes "elementType e = ''ability''" and "currentValue e \<in> {0, 1}"
  shows "step e up = Inr (e\<lparr>currentValue := (if currentValue e = 0 then 1 else 0),
                      changeEvents := changeEvents e + 1\<rparr>)"
proof -
  have vv: "validValues e = [0, 1]" using assms(1) by (simp add: validValues_def)
  from assms(2) consider "currentValue e = 0" | "currentValue e = 1" by auto
  then show ?thesis
  proof cases
    case 1
    show ?thesis using step_at [OF vv, of 0 up 1] 1 by (simp add: jsRem_def)
  next
    case 2
    show ?thesis using step_at [OF vv, of 1 up 0] 2 by (simp add: jsRem_def)
  qed
qed

lemma step_skill_up:
  assumes "elementType e \<noteq> ''ability''" and "currentValue e \<in> {0, 1, 1 / 2, 2}"
  shows "step e True = Inr (e\<lparr>currentValue := (if currentValue e = 0 then 1 else if currentValue e = 1 then 1 / 2
                                           else if currentValue e = 1 / 2 then 2 else 0),
                        changeEvents := changeEvents e + 1\<rparr>)"
proof -
  have vv: "validValues e = [0, 1, 1 / 2, 2]" using assms(1) by (simp add: validValues_def)
  from assms(2) consider "currentValue e = 0" | "currentValue e = 1" | "currentValue e = 1 / 2"
    | "currentValue e = 2" by auto
  then show ?thesis
  proof cases
    case 1
    show ?thesis using step_at [OF vv, of 0 True 1] 1 by (simp add: jsRem_def)
  next
    case 2
    show ?thesis using step_at [OF vv, of 1 True 2] 2 by (simp add: jsRem_def)
  next
    case 3
    show ?thesis using step_at [OF vv, of 2 True 3] 3 by (simp add: jsRem_def)
  next
    case 4
    show ?thesis using step_at [OF vv, of 3 True 0] 4 by (simp add: jsRem_def)
  qed
qed

lemma step_skill_down:
  assumes "elementType e \<noteq> ''ability''" and "currentValue e \<in> {0, 1, 1 / 2, 2}"
  shows "step e False = Inr (e\<lparr>currentValue := (if currentValue e = 0 then 2 else if currentValue e = 1 then 0
                                            else if currentValue e = 1 / 2 then 1 else 1 / 2),
                         changeEvents := changeEvents e + 1\<rparr>)"
proof -
  have vv: "validValues e = [0, 1, 1 / 2, 2]" using assms(1) by (simp add: validValues_def)
  from assms(2) consider "currentValue e = 0" | "currentValue e = 1" | "currentValue e = 1 / 2"
    | "currentValue e = 2" by auto
  then show ?thesis
  proof cases
    case 1
    show ?thesis using step_at [OF vv, of 0 False 3] 1 by (simp add: jsRem_def)
  next
    case 2
    show ?thesis using step_at [OF vv, of 1 False 0] 2 by (simp add: jsRem_def)
  next
    case 3
    show ?thesis using step_at [OF vv, of 2 False 1] 3 by (simp add: jsRem_def)
  next
    case 4
    show ?thesis using step_at [OF vv, of 3 False 2] 4 by (simp add: jsRem_def)
  qed
qed

text \<open>
  Claim C10. The valid values are \<open>[0, 1]\<close> for the type "ability" and
  \<open>[0, 1, 1/2, 2]\<close> for the type "skill". For an element whose value is in the list of
  its type, every step succeeds (the setter does not throw) and leaves the value in the
  list, \<^verbatim>\<open>step(true)\<close> followed by \<^verbatim>\<open>step(false)\<close> gives back the original value, and
  the steps wrap around at the ends of the list.
\<close>

theorem step_up_then_down_restores:
  assumes valid: "currentValue e \<in> set (validValues e)"
  shows "validValues (e\<lparr>typeAttribute := Some ''ability''\<rparr>) = [0, 1] \<and>
         validValues (e\<lparr>typeAttribute := Some ''skill''\<rparr>) = [0, 1, 1 / 2, 2] \<and>
         (\<exists>e1 e2. step e True = Inr e1 \<and> step e1 False = Inr e2 \<and> currentValue e2 = currentValue e) \<and>
         (\<exists>e'. step e up = Inr e' \<and> currentValue e' \<in> set (validValues e') \<and> validValues e' = validValues e) \<and>
         (currentValue e = last (validValues e) \<longrightarrow>
            (\<exists>e'. step e True = Inr e' \<and> currentValue e' = hd (validValues e))) \<and>
         (currentValue e = hd (validValues e) \<longrightarrow>
            (\<exists>e'. step e False = Inr e' \<and> currentValue e' = last (validValues e)))"
proof (cases "elementType e = ''ability''")
  case True
  with valid have v: "currentValue e \<in> {0, 1}" by (simp add: validValues_def)
  have vv: "validValues e = [0, 1]" using True by (simp add: validValues_def)
  have up1: "step e True = Inr (e\<lparr>currentValue := (if currentValue e = 0 then 1 else 0),
                      changeEvents := changeEvents e + 1\<rparr>)" (is "_ = Inr ?e1")
    using step_ability [OF True v] .
  have t1: "elementType ?e1 = ''ability''" using True by simp
  have v1: "currentValue ?e1 \<in> {0, 1}" by simp
  have down1: "step ?e1 False = Inr (?e1\<lparr>currentValue := (if currentValue ?e1 = 0 then 1 else 0),
                      changeEvents := changeEvents ?e1 + 1\<rparr>)"
    using step_ability [OF t1 v1] .
  have round: "\<exists>e1 e2. step e True = Inr e1 \<and> step e1 False = Inr e2 \<and> currentValue e2 = currentValue e"
    using up1 down1 v by auto
  have any: "\<exists>e'. step e up = Inr e' \<and> currentValue e' \<in> set (validValues e') \<and> validValues e' = validValues e"
    using step_ability [OF True v, of up] vv by simp
  have wrap_up: "currentValue e = last (validValues e) \<longrightarrow>
            (\<exists>e'. step e True = Inr e' \<and> currentValue e' = hd (validValues e))"
    using up1 vv by simp
  have wrap_down: "currentValue e = hd (validValues e) \<longrightarrow>
            (\<exists>e'. step e False = Inr e' \<and> currentValue e' = last (validValues e))"
    using step_ability [OF True v, of False] vv by simp
  show ?thesis using round any wrap_up wrap_down
    by (simp add: validValues_def elementType_def)
next
  case False
  with valid have v: "currentValue e \<in> {0, 1, 1 / 2, 2}" by (simp add: validValues_def)
  have vv: "validValues e = [0, 1, 1 / 2, 2]" using False by (simp add: validValues_def)
  have up1: "step e True = Inr (e\<lparr>currentValue := (if currentValue e = 0 then 1 else if currentValue e = 1 then 1 / 2
                                           else if currentValue e = 1 / 2 then 2 else 0),
                        changeEvents := changeEvents e + 1\<rparr>)" (is "_ = Inr ?e1")
    using step_skill_up [OF False v] .
  have t1: "elementType ?e1 \<noteq> ''ability''" using False by simp
  have v1: "currentValue ?e1 \<in> {0, 1, 1 / 2, 2}" by simp
  have round: "\<exists>e1 e2. step e True = Inr e1 \<and> step e1 False = Inr e2 \<and> currentValue e2 = currentValue e"
    using up1 step_skill_down [OF t1 v1] v by auto
  have any: "\<exists>e'. step e up = Inr e' \<and> currentValue e' \<in> set (validValues e') \<and> validValues e' = validValues e"
    using step_skill_up [OF False v] step_skill_down [OF False v] vv by (cases up) simp_all
  have wrap_up: "currentValue e = last (validValues e) \<longrightarrow>
            (\<exists>e'. step e True = Inr e' \<and> currentValue e' = hd (validValues e))"
    using up1 vv by simp
  have wrap_down: "currentValue e = hd (validValues e) \<longrightarrow>
            (\<exists>e'. step e False = Inr e' \<and> currentValue e' = last (validValues e))"
    using step_skill_down [OF False v] vv by simp
  show ?thesis using round any wrap_up wrap_down
    by (simp add: validValues_def elementType_def)
qed

theorem step_up_then_down_restores_witness:
  "(\<exists>e1 e2. step \<lparr>typeAttribute = Some ''skill'', currentValue = 2, changeEvents = 0\<rparr> True = Inr e1 \<and>
             step e1 False = Inr e2 \<and> currentValue e2 = 2) \<and>
   (\<exists>e'. step \<lparr>typeAttribute = Some ''skill'', currentValue = 2, changeEvents = 0\<rparr> True = Inr e' \<and>
          currentValue e' = 0)"
proof -
  have v: "currentValue \<lparr>typeAttribute = Some ''skill'', currentValue = 2, changeEvents = 0\<rparr>
             \<in> set (validValues \<lparr>typeAttribute = Some ''skill'', currentValue = 2, changeEvents = 0\<rparr>)"
    by (simp add: validValues_def elementType_def)
  show ?thesis
    using step_up_then_down_restores [OF v, of True]
    by (simp add: validValues_def elementType_def)
qed

section \<open>Properties of the advancement base class\<close>


lemma findIndex_less: "findIndex P xs = Some i \<Longrightarrow> i < length xs"
  by (induction xs arbitrary: i) (auto split: if_splits)

lemma mergeValue_id [simp]: "adv_id (mergeValue d u) = adv_id d"
  by (simp add: mergeValue_def)

lemma mergeValue_empty [simp]: "mergeValue d Map.empty = d"
  by (simp add: mergeValue_def)








section \<open>Properties of the enrichers\<close>

lemma dice_2d6: "diceTotal False ''2d6'' = 2" "diceTotal True ''2d6'' = 12"
  by (simp_all add: diceTotal_def diceTerm_def parseNat_def digitValue_def)

lemma resolveDC_other: "k \<noteq> ''dc'' \<Longrightarrow> resolveDC H rd p k = p k"
  by (simp add: resolveDC_def split: option.splits)

lemma resolveTool_props: "st_props (resolveTool H R s) = st_props s"
  by (simp add: resolveTool_def warn_def Let_def)

lemma resolveAbility_ability:
  "st_props (resolveAbility H R s) ''ability'' = canonicalAbility H R (st_props s ''ability'')"
  by (simp add: resolveAbility_def canonicalAbility_def warn_def Let_def split: option.splits)

lemma enrichCheck_final_ability:
  "finalConfig (enrichCheck H R c label rd) ''ability''
     = canonicalAbility H R (st_props (resolveSkill H R (afterValues H R c)) ''ability'')"
  by (simp add: enrichCheck_def Let_def resolveDC_other resolveAbility_ability resolveTool_props)

lemma resolveSkill_default:
  assumes "truthy (st_props s ''skill'')"
    and "lookupSkills R (propertyKey H (st_props s ''skill'')) = Some sc"
    and "\<not> truthy (st_props s ''ability'')"
  shows "st_props (resolveSkill H R s) ''ability'' = Some (JStr (skill_ability sc))"
  using assms by (simp add: resolveSkill_def Let_def)

lemma resolveSkill_explicit:
  assumes "truthy (st_props s ''ability'')"
  shows "st_props (resolveSkill H R s) ''ability'' = st_props s ''ability''"
  using assms by (simp add: resolveSkill_def warn_def Let_def split: option.splits)

lemma afterValues_props [simp]: "st_props (afterValues H R c) = checkValues H R c"
  by (simp add: afterValues_def)

text \<open>
  Claim C8. Take a check whose configuration, once the positional values are read,
  names a skill that the skills table knows. If it names no ability (the property is
  absent or falsy), the statements after the skill lookup set \<^verbatim>\<open>config.ability\<close> to the
  default ability of the skill, and \<^verbatim>\<open>enrichCheck\<close> ends with that ability in
  \<^verbatim>\<open>config.ability\<close>, under the canonical key of its entry in the abilities table when
  the entry has one. If it names an ability, the skill lookup leaves it as it is, and
  \<^verbatim>\<open>enrichCheck\<close> ends with the ability that was given (again under its canonical
  key): the default of the skill is not used.
\<close>

theorem skill_default_ability:
  assumes skill: "truthy (checkValues H R c ''skill'')"
    and known: "lookupSkills R (propertyKey H (checkValues H R c ''skill'')) = Some sc"
  shows
    "(\<not> truthy (checkValues H R c ''ability'') \<longrightarrow>
        st_props (resolveSkill H R (afterValues H R c)) ''ability'' = Some (JStr (skill_ability sc)) \<and>
        finalConfig (enrichCheck H R c label rd) ''ability''
          = canonicalAbility H R (Some (JStr (skill_ability sc)))) \<and>
     (truthy (checkValues H R c ''ability'') \<longrightarrow>
        st_props (resolveSkill H R (afterValues H R c)) ''ability'' = checkValues H R c ''ability'' \<and>
        finalConfig (enrichCheck H R c label rd) ''ability''
          = canonicalAbility H R (checkValues H R c ''ability''))"
proof (intro conjI impI)
  assume none: "\<not> truthy (checkValues H R c ''ability'')"
  show d: "st_props (resolveSkill H R (afterValues H R c)) ''ability'' = Some (JStr (skill_ability sc))"
    using resolveSkill_default [of "afterValues H R c" R H sc] skill known none by simp
  show "finalConfig (enrichCheck H R c label rd) ''ability''
          = canonicalAbility H R (Some (JStr (skill_ability sc)))"
    using d by (simp add: enrichCheck_final_ability)
next
  assume given: "truthy (checkValues H R c ''ability'')"
  show e: "st_props (resolveSkill H R (afterValues H R c)) ''ability'' = checkValues H R c ''ability''"
    using resolveSkill_explicit [of "afterValues H R c" H R] given by simp
  show "finalConfig (enrichCheck H R c label rd) ''ability''
          = canonicalAbility H R (checkValues H R c ''ability'')"
    using e by (simp add: enrichCheck_final_ability)
qed

lemma checkValues_checkAcrobatics:
  "checkValues exampleHost exampleRules checkAcrobatics = cfg_props checkAcrobatics"
  by (simp add: checkValues_def checkAcrobatics_def)

lemma checkValues_checkStrengthAcrobatics:
  "checkValues exampleHost exampleRules checkStrengthAcrobatics = cfg_props checkStrengthAcrobatics"
  by (simp add: checkValues_def checkStrengthAcrobatics_def)

lemma acrobatics_link:
  "isRollLink (returned (enrichCheck exampleHost exampleRules checkAcrobatics None Map.empty)) \<and>
   linkDataset (returned (enrichCheck exampleHost exampleRules checkAcrobatics None Map.empty)) ''ability''
     = Some (JStr ''dex'') \<and>
   linkDataset (returned (enrichCheck exampleHost exampleRules checkAcrobatics None Map.empty)) ''skill''
     = Some (JStr ''acr'') \<and>
   warnings (enrichCheck exampleHost exampleRules checkAcrobatics None Map.empty) = []"
proof -
  define P where "P = cfg_props checkAcrobatics"
  define Q where "Q = P(''ability'' \<mapsto> JStr ''dex'')"
  have p: "P ''skill'' = Some (JStr ''acr'')" "P ''ability'' = None" "P ''tool'' = None"
    "P ''dc'' = Some (JNum 20)" "P ''passive'' = None"
    by (simp_all add: P_def checkAcrobatics_def)
  have q: "Q ''skill'' = Some (JStr ''acr'')" "Q ''ability'' = Some (JStr ''dex'')" "Q ''tool'' = None"
    "Q ''dc'' = Some (JNum 20)" "Q ''passive'' = None"
    using p by (simp_all add: Q_def)
  have sk: "lookupSkills exampleRules ''acr''
              = Some \<lparr>skill_label = ''Acrobatics'', skill_ability = ''dex'', skill_key = None\<rparr>"
    by (simp add: exampleRules_def)
  have ab: "lookupAbilities exampleRules ''dex'' = Some \<lparr>ability_label = ''Dexterity'', ability_key = None\<rparr>"
    by (simp add: exampleRules_def)
  have tl: "lookupTools exampleRules ''undefined'' = None"
    by (simp add: exampleRules_def)
  have s0: "afterValues exampleHost exampleRules checkAcrobatics
              = \<lparr>st_props = P, st_invalid = False, st_warnings = []\<rparr>"
    by (simp add: afterValues_def checkValues_checkAcrobatics P_def)
  have s1: "resolveSkill exampleHost exampleRules \<lparr>st_props = P, st_invalid = False, st_warnings = []\<rparr>
              = \<lparr>st_props = Q, st_invalid = False, st_warnings = []\<rparr>"
    by (simp add: resolveSkill_def p sk truthyString_def Q_def)
  have ti: "toolIndexOf exampleHost exampleRules Q = None"
    by (simp add: toolIndexOf_def q tl)
  have s2: "resolveTool exampleHost exampleRules \<lparr>st_props = Q, st_invalid = False, st_warnings = []\<rparr>
              = \<lparr>st_props = Q, st_invalid = False, st_warnings = []\<rparr>"
    by (simp add: resolveTool_def q)
  have s3: "resolveAbility exampleHost exampleRules \<lparr>st_props = Q, st_invalid = False, st_warnings = []\<rparr>
              = \<lparr>st_props = Q, st_invalid = False, st_warnings = []\<rparr>"
    by (simp add: resolveAbility_def q ab truthyString_def)
  have dc: "resolveDC exampleHost Map.empty Q = Q"
    by (simp add: resolveDC_def q)
  have out: "enrichCheck exampleHost exampleRules checkAcrobatics None Map.empty
      = \<lparr>warnings = [], finalConfig = Q,
         returned = RollLink
           (checkLabel exampleHost (lookupSkills exampleRules ''acr'') None
              (lookupAbilities exampleRules ''dex'') Q None)
           (addDataset ([''type'' \<mapsto> JStr ''skill''] ++ Q))\<rparr>"
    by (simp add: enrichCheck_def s0 s1 s2 s3 ti dc p q)
  show ?thesis
    by (simp add: out addDataset_def q map_add_def)
qed

theorem skill_default_ability_witness:
  "finalConfig (enrichCheck exampleHost exampleRules checkAcrobatics None Map.empty) ''ability''
     = Some (JStr ''dex'') \<and>
   finalConfig (enrichCheck exampleHost exampleRules checkStrengthAcrobatics None Map.empty) ''ability''
     = Some (JStr ''str'') \<and>
   isRollLink (returned (enrichCheck exampleHost exampleRules checkAcrobatics None Map.empty)) \<and>
   linkDataset (returned (enrichCheck exampleHost exampleRules checkAcrobatics None Map.empty)) ''ability''
     = Some (JStr ''dex'')"
proof -
  have s1: "truthy (checkValues exampleHost exampleRules checkAcrobatics ''skill'')"
    by (simp add: checkValues_checkAcrobatics) (simp add: checkAcrobatics_def)
  have k1: "lookupSkills exampleRules (propertyKey exampleHost (checkValues exampleHost exampleRules checkAcrobatics ''skill''))
              = Some \<lparr>skill_label = ''Acrobatics'', skill_ability = ''dex'', skill_key = None\<rparr>"
    by (simp add: checkValues_checkAcrobatics) (simp add: checkAcrobatics_def exampleRules_def)
  have a1: "\<not> truthy (checkValues exampleHost exampleRules checkAcrobatics ''ability'')"
    by (simp add: checkValues_checkAcrobatics) (simp add: checkAcrobatics_def)
  have c1: "canonicalAbility exampleHost exampleRules (Some (JStr ''dex'')) = Some (JStr ''dex'')"
    by (simp add: canonicalAbility_def exampleRules_def truthyString_def)
  have s2: "truthy (checkValues exampleHost exampleRules checkStrengthAcrobatics ''skill'')"
    by (simp add: checkValues_checkStrengthAcrobatics) (simp add: checkStrengthAcrobatics_def)
  have k2: "lookupSkills exampleRules (propertyKey exampleHost (checkValues exampleHost exampleRules checkStrengthAcrobatics ''skill''))
              = Some \<lparr>skill_label = ''Acrobatics'', skill_ability = ''dex'', skill_key = None\<rparr>"
    by (simp add: checkValues_checkStrengthAcrobatics) (simp add: checkStrengthAcrobatics_def exampleRules_def)
  have a2: "checkValues exampleHost exampleRules checkStrengthAcrobatics ''ability'' = Some (JStr ''str'')"
    by (simp add: checkValues_checkStrengthAcrobatics) (simp add: checkStrengthAcrobatics_def)
  have c2: "canonicalAbility exampleHost exampleRules (Some (JStr ''str'')) = Some (JStr ''str'')"
    by (simp add: canonicalAbility_def exampleRules_def truthyString_def)
  show ?thesis
    using skill_default_ability [OF s1 k1, of None Map.empty]
          skill_default_ability [OF s2 k2, of None Map.empty] a1 a2 c1 c2 acrobatics_link
    by simp
qed

text \<open>
  Claim C9 fails on the code. For \<^verbatim>\<open>[[/check skill=xyz input]]\<close> the loop over the
  positional values runs \<^verbatim>\<open>config["input"] = true\<close>, so the unknown skill is logged
  but what \<^verbatim>\<open>enrichCheck\<close> returns is \<^verbatim>\<open>true\<close> and not the matched text; the same
  happens in \<^verbatim>\<open>enrichSave\<close> for \<^verbatim>\<open>[[/save ability=xyz input]]\<close>.
\<close>

theorem unknown_key_with_input_word_returns_true:
  "returned (enrichCheck exampleHost exampleRules checkUnknownSkillInput None Map.empty)
     = ConfigInput (Some (JBool True)) \<and>
   warnings (enrichCheck exampleHost exampleRules checkUnknownSkillInput None Map.empty)
     = [SkillNotFound (Some (JStr ''xyz'')) (Some (JBool True)), NoAbilityProvided (Some (JBool True))] \<and>
   returned (enrichSave exampleHost exampleRules saveUnknownAbilityInput None Map.empty)
     = ConfigInput (Some (JBool True))"
  by (simp add: enrichCheck_def enrichSave_def afterValues_def checkValues_def checkValue_def
      saveValues_def saveValue_def checkUnknownSkillInput_def saveUnknownAbilityInput_def
      exampleRules_def exampleHost_def resolveSkill_def resolveTool_def resolveAbility_def
      resolveDC_def toolIndexOf_def warn_def parseNat_def digitValue_def Let_def)

lemma damageConfig_average:
  "damageConfig H R c rd ''average'' = fst (damageValues H R c) ''average''"
  by (simp add: damageConfig_def Let_def)

text \<open>
  Claim C7, as stated, fails for the numeric value 0: \<^verbatim>\<open>[[/damage 2d6 average=0]]\<close>
  gives the short form, which displays no average.
\<close>

theorem average_zero_is_not_displayed:
  "spanKind (damageReturned (enrichDamage exampleHost exampleRules damageAverageZero None Map.empty))
     = Some ''Short'' \<and>
   displayedAverage (damageReturned (enrichDamage exampleHost exampleRules damageAverageZero None Map.empty))
     = None"
  by (simp add: enrichDamage_def damageFormula_def damageConfig_def damageValues_def damageValue_def
      damageAverageZero_def exampleRules_def exampleHost_def Let_def truthyString_def)

text \<open>
  Claim C7, amended. Take a damage link with no label of its own and a formula that is
  not empty, and read \<^verbatim>\<open>config.average\<close> once the positional values are read. When it
  is \<^verbatim>\<open>true\<close>, the formula is evaluated once minimized and once maximized and the
  long form displays \<open>floor((minimum + maximum) / 2)\<close>, which is 7 when the minimum is 2
  and the maximum 12, as for \<^verbatim>\<open>2d6\<close>. When it is a number other than 0, the long form
  displays that number as it is. When it is any number, the formula is not evaluated.
\<close>

theorem damage_average_displayed:
  assumes nolabel: "\<not> truthyString label" and formula: "damageFormula H R c rd \<noteq> []"
  shows
    "(fst (damageValues H R c) ''average'' = Some (JBool True) \<longrightarrow>
        spanKind (damageReturned (enrichDamage H R c label rd)) = Some ''Long'' \<and>
        displayedAverage (damageReturned (enrichDamage H R c label rd))
          = Some (JNum (of_int \<lfloor>(minimumTotal H (damageFormula H R c rd)
                                   + maximumTotal H (damageFormula H R c rd)) / 2\<rfloor>)) \<and>
        evaluations (enrichDamage H R c label rd)
          = [Minimize (damageFormula H R c rd), Maximize (damageFormula H R c rd)]) \<and>
     (fst (damageValues H R c) ''average'' = Some (JBool True) \<and>
      minimumTotal H (damageFormula H R c rd) = 2 \<and> maximumTotal H (damageFormula H R c rd) = 12 \<longrightarrow>
        displayedAverage (damageReturned (enrichDamage H R c label rd)) = Some (JNum 7)) \<and>
     (fst (damageValues H R c) ''average'' = Some (JNum n) \<and> n \<noteq> 0 \<longrightarrow>
        spanKind (damageReturned (enrichDamage H R c label rd)) = Some ''Long'' \<and>
        displayedAverage (damageReturned (enrichDamage H R c label rd)) = Some (JNum n)) \<and>
     (fst (damageValues H R c) ''average'' = Some (JNum n) \<longrightarrow>
        evaluations (enrichDamage H R c label rd) = [])"
  using nolabel formula
  by (simp add: enrichDamage_def damageConfig_average Let_def)

theorem damage_average_displayed_witness:
  "displayedAverage (damageReturned (enrichDamage exampleHost exampleRules damageAverageTrue None Map.empty))
     = Some (JNum 7) \<and>
   displayedAverage (damageReturned (enrichDamage exampleHost exampleRules damageAverage666 None Map.empty))
     = Some (JNum 666) \<and>
   evaluations (enrichDamage exampleHost exampleRules damageAverage666 None Map.empty) = []"
proof -
  have nolabel: "\<not> truthyString None" by (simp add: truthyString_def)
  have f1: "damageFormula exampleHost exampleRules damageAverageTrue Map.empty = ''2d6''"
    by (simp add: damageFormula_def damageValues_def damageValue_def damageAverageTrue_def
        exampleRules_def exampleHost_def)
  have a1: "fst (damageValues exampleHost exampleRules damageAverageTrue) ''average'' = Some (JBool True)"
    by (simp add: damageValues_def damageValue_def damageAverageTrue_def exampleRules_def)
  have m1: "minimumTotal exampleHost ''2d6'' = 2" "maximumTotal exampleHost ''2d6'' = 12"
    by (simp_all add: exampleHost_def dice_2d6)
  have f2: "damageFormula exampleHost exampleRules damageAverage666 Map.empty = ''8d4dl''"
    by (simp add: damageFormula_def damageValues_def damageValue_def damageAverage666_def
        exampleRules_def exampleHost_def)
  have a2: "fst (damageValues exampleHost exampleRules damageAverage666) ''average'' = Some (JNum 666)"
    by (simp add: damageValues_def damageValue_def damageAverage666_def exampleRules_def)
  have n1: "damageFormula exampleHost exampleRules damageAverageTrue Map.empty \<noteq> []"
    using f1 by simp
  have n2: "damageFormula exampleHost exampleRules damageAverage666 Map.empty \<noteq> []"
    using f2 by simp
  show ?thesis
    using damage_average_displayed [OF nolabel n1, of 0]
          damage_average_displayed [OF nolabel n2, of 666] a1 a2 m1 f1
    by simp
qed


text \<open>
  Apart from that case the enrichers degrade as intended: when the word \<^verbatim>\<open>input\<close> is
  not among the positional values, a check that names an unknown skill, an unknown tool
  or an unknown ability (or no ability), and a save whose ability is unknown, log a
  warning and return the matched text as \<^verbatim>\<open>enrichString\<close> stored it in
  \<^verbatim>\<open>config.input\<close>.
\<close>

lemma checkValue_keeps:
  "k \<noteq> v \<Longrightarrow> k \<noteq> ''ability'' \<Longrightarrow> k \<noteq> ''skill'' \<Longrightarrow> k \<noteq> ''tool'' \<Longrightarrow> k \<noteq> ''dc'' \<Longrightarrow>
   checkValue H R p v k = p k"
  by (simp add: checkValue_def)

lemma foldl_checkValue_keeps:
  "k \<notin> set vs \<Longrightarrow> k \<noteq> ''ability'' \<Longrightarrow> k \<noteq> ''skill'' \<Longrightarrow> k \<noteq> ''tool'' \<Longrightarrow> k \<noteq> ''dc'' \<Longrightarrow>
   foldl (checkValue H R) p vs k = p k"
  by (induction vs arbitrary: p) (simp_all add: checkValue_keeps)

lemma checkValues_input:
  "''input'' \<notin> set (cfg_values c) \<Longrightarrow> checkValues H R c ''input'' = cfg_props c ''input''"
  by (simp add: checkValues_def foldl_checkValue_keeps)

lemma saveValue_keeps:
  "k \<noteq> v \<Longrightarrow> k \<noteq> ''ability'' \<Longrightarrow> k \<noteq> ''dc'' \<Longrightarrow> saveValue H R p v k = p k"
  by (simp add: saveValue_def)

lemma foldl_saveValue_keeps:
  "k \<notin> set vs \<Longrightarrow> k \<noteq> ''ability'' \<Longrightarrow> k \<noteq> ''dc'' \<Longrightarrow> foldl (saveValue H R) p vs k = p k"
  by (induction vs arbitrary: p) (simp_all add: saveValue_keeps)

lemma saveValues_input:
  "''input'' \<notin> set (cfg_values c) \<Longrightarrow> saveValues H R c ''input'' = cfg_props c ''input''"
  by (simp add: saveValues_def foldl_saveValue_keeps)

lemma resolveSkill_input: "st_props (resolveSkill H R s) ''input'' = st_props s ''input''"
  by (simp add: resolveSkill_def warn_def Let_def split: option.splits)

lemma resolveSkill_tool: "st_props (resolveSkill H R s) ''tool'' = st_props s ''tool''"
  by (simp add: resolveSkill_def warn_def Let_def split: option.splits)

lemma resolveAbility_input: "st_props (resolveAbility H R s) ''input'' = st_props s ''input''"
  by (simp add: resolveAbility_def warn_def Let_def split: option.splits)

lemma resolveSkill_invalid:
  "st_invalid (resolveSkill H R s) =
     (st_invalid s \<or> (truthy (st_props s ''skill'') \<and>
                        lookupSkills R (propertyKey H (st_props s ''skill'')) = None))"
  by (simp add: resolveSkill_def warn_def Let_def split: option.splits)

lemma resolveTool_invalid:
  "st_invalid (resolveTool H R s) =
     (st_invalid s \<or> (truthy (st_props s ''tool'') \<and> toolIndexOf H R (st_props s) = None))"
  by (auto simp: resolveTool_def warn_def Let_def)

lemma resolveAbility_invalid:
  "st_invalid (resolveAbility H R s) =
     (st_invalid s \<or> lookupAbilities R (propertyKey H (st_props s ''ability'')) = None)"
  by (simp add: resolveAbility_def warn_def Let_def split: option.splits)

lemma logged_afterValues: "logged (afterValues H R c)"
  by (simp add: logged_def afterValues_def)

lemma logged_resolveSkill: "logged s \<Longrightarrow> logged (resolveSkill H R s)"
  by (simp add: logged_def resolveSkill_def warn_def Let_def split: option.splits)

lemma logged_resolveTool: "logged s \<Longrightarrow> logged (resolveTool H R s)"
  by (simp add: logged_def resolveTool_def warn_def Let_def)

lemma logged_resolveAbility: "logged s \<Longrightarrow> logged (resolveAbility H R s)"
  by (simp add: logged_def resolveAbility_def warn_def Let_def split: option.splits)

lemma enrichCheck_invalid:
  assumes "st_invalid (resolveAbility H R (resolveTool H R (resolveSkill H R (afterValues H R c))))"
  shows "returned (enrichCheck H R c label rd) = ConfigInput (checkValues H R c ''input'') \<and>
         warnings (enrichCheck H R c label rd) \<noteq> []"
proof -
  let ?s3 = "resolveAbility H R (resolveTool H R (resolveSkill H R (afterValues H R c)))"
  have "logged ?s3"
    by (intro logged_resolveAbility logged_resolveTool logged_resolveSkill logged_afterValues)
  with assms have w: "st_warnings ?s3 \<noteq> []" by (simp add: logged_def)
  have i: "st_props ?s3 ''input'' = checkValues H R c ''input''"
    by (simp add: resolveAbility_input resolveTool_props resolveSkill_input)
  show ?thesis using assms w i by (simp add: enrichCheck_def Let_def resolveDC_other)
qed

lemma unknown_key_returns_input_text:
  assumes free: "''input'' \<notin> set (cfg_values c)"
  shows
    "(truthy (checkValues H R c ''skill'') \<and>
      lookupSkills R (propertyKey H (checkValues H R c ''skill'')) = None \<longrightarrow>
        returned (enrichCheck H R c label rd) = ConfigInput (cfg_props c ''input'') \<and>
        warnings (enrichCheck H R c label rd) \<noteq> []) \<and>
     (truthy (checkValues H R c ''tool'') \<and>
      toolIndexOf H R (st_props (resolveSkill H R (afterValues H R c))) = None \<longrightarrow>
        returned (enrichCheck H R c label rd) = ConfigInput (cfg_props c ''input'') \<and>
        warnings (enrichCheck H R c label rd) \<noteq> []) \<and>
     (lookupAbilities R (propertyKey H (st_props (resolveSkill H R (afterValues H R c)) ''ability'')) = None \<longrightarrow>
        returned (enrichCheck H R c label rd) = ConfigInput (cfg_props c ''input'') \<and>
        warnings (enrichCheck H R c label rd) \<noteq> []) \<and>
     (lookupAbilities R (propertyKey H (saveValues H R c ''ability'')) = None \<longrightarrow>
        returned (enrichSave H R c label rd) = ConfigInput (cfg_props c ''input'') \<and>
        warnings (enrichSave H R c label rd)
          = [AbilityNotFound (saveValues H R c ''ability'') (cfg_props c ''input'')])"
proof (intro conjI impI)
  assume "truthy (checkValues H R c ''skill'') \<and>
      lookupSkills R (propertyKey H (checkValues H R c ''skill'')) = None"
  then have "st_invalid (resolveAbility H R (resolveTool H R (resolveSkill H R (afterValues H R c))))"
    by (simp add: resolveAbility_invalid resolveTool_invalid resolveSkill_invalid)
  from enrichCheck_invalid [OF this, of label rd]
  show "returned (enrichCheck H R c label rd) = ConfigInput (cfg_props c ''input'')"
    and "warnings (enrichCheck H R c label rd) \<noteq> []"
    by (simp_all add: checkValues_input [OF free])
next
  assume "truthy (checkValues H R c ''tool'') \<and>
      toolIndexOf H R (st_props (resolveSkill H R (afterValues H R c))) = None"
  then have "st_invalid (resolveAbility H R (resolveTool H R (resolveSkill H R (afterValues H R c))))"
    by (simp add: resolveAbility_invalid resolveTool_invalid resolveSkill_tool)
  from enrichCheck_invalid [OF this, of label rd]
  show "returned (enrichCheck H R c label rd) = ConfigInput (cfg_props c ''input'')"
    and "warnings (enrichCheck H R c label rd) \<noteq> []"
    by (simp_all add: checkValues_input [OF free])
next
  assume "lookupAbilities R (propertyKey H (st_props (resolveSkill H R (afterValues H R c)) ''ability'')) = None"
  then have "st_invalid (resolveAbility H R (resolveTool H R (resolveSkill H R (afterValues H R c))))"
    by (simp add: resolveAbility_invalid resolveTool_props)
  from enrichCheck_invalid [OF this, of label rd]
  show "returned (enrichCheck H R c label rd) = ConfigInput (cfg_props c ''input'')"
    and "warnings (enrichCheck H R c label rd) \<noteq> []"
    by (simp_all add: checkValues_input [OF free])
next
  assume a: "lookupAbilities R (propertyKey H (saveValues H R c ''ability'')) = None"
  then show "returned (enrichSave H R c label rd) = ConfigInput (cfg_props c ''input'')"
    by (simp add: enrichSave_def Let_def saveValues_input [OF free])
  from a show "warnings (enrichSave H R c label rd)
          = [AbilityNotFound (saveValues H R c ''ability'') (cfg_props c ''input'')]"
    by (simp add: enrichSave_def Let_def saveValues_input [OF free])
qed


end
